theory Spec2Isabelle
  imports Main "HOL-Library.AList"
begin

section \<open>Python values used by \<open>redmail/email/sender.py\<close>\<close>

text \<open>
  Python's \<open>a or b\<close> returns \<open>a\<close> when \<open>a\<close> is truthy and \<open>b\<close> otherwise.
  \<open>None\<close>, the empty string, the empty list and the empty dict are falsy.
  An \<open>Optional[str]\<close> is a \<open>string option\<close>.
\<close>

definition truthy_str :: "string option \<Rightarrow> bool" where
  "truthy_str v = (case v of None \<Rightarrow> False | Some s \<Rightarrow> s \<noteq> [])"

definition or_str :: "string option \<Rightarrow> string option \<Rightarrow> string option" where
  "or_str a b = (if truthy_str a then a else b)"

text \<open>\<open>Union[List[str], str, None]\<close>: the address arguments.\<close>

datatype addresses = AddrStr string | AddrList "string list"

definition truthy_addr :: "addresses option \<Rightarrow> bool" where
  "truthy_addr v =
     (case v of None \<Rightarrow> False
      | Some (AddrStr s) \<Rightarrow> s \<noteq> []
      | Some (AddrList xs) \<Rightarrow> xs \<noteq> [])"

definition or_addr :: "addresses option \<Rightarrow> addresses option \<Rightarrow> addresses option" where
  "or_addr a b = (if truthy_addr a then a else b)"

text \<open>
  The values a Jinja parameter can hold here. \<open>EmailAddress\<close> and \<open>Error\<close> come from
  \<open>redmail.models\<close>; this module only constructs them, so they are constructors
  carrying their argument.
\<close>

datatype pyval =
    PyNone
  | PyStr string
  | PyInt int
  | PyDateTime nat
  | EmailAddress "string option"
  | Error string

text \<open>
  A dict of Jinja parameters: its items in insertion order, every key once.
  \<open>d.update(e)\<close> stores the items of \<open>e\<close> one after the other: the value of a key
  already in \<open>d\<close> is replaced where it stands, a new key goes to the end.
\<close>

type_synonym params = "(string \<times> pyval) list"

definition dict_update :: "params \<Rightarrow> params \<Rightarrow> params" where
  "dict_update d e = fold (\<lambda>(k, v). AList.update k v) e d"

definition truthy_dict :: "params option \<Rightarrow> bool" where
  "truthy_dict d = (case d of None \<Rightarrow> False | Some e \<Rightarrow> e \<noteq> [])"

text \<open>What \<open>platform.node()\<close>, \<open>getpass.getuser()\<close> and \<open>datetime.datetime.now()\<close> return.\<close>

record platform =
  node :: string
  getuser :: string
  now :: nat

section \<open>Tabular data and group spans\<close>

text \<open>
  Modelled from the spec: the tables handed to \<open>body_tables\<close> and \<open>attachments\<close> are
  data frames of a library outside this repository. Section 3 of the specification
  describes them: column names, rows that map column names to scalar values, and the
  grouping columns in their order of precedence.
\<close>

datatype cell = Null | Str string | Num int

record TabularData =
  columns :: "string list"
  rows :: "(string \<rightharpoonup> cell) list"
  grouping :: "string list"

text \<open>Modelled from the spec: a key missing from a row reads as null.\<close>

definition cell_at :: "(string \<rightharpoonup> cell) \<Rightarrow> string \<Rightarrow> cell" where
  "cell_at row c = (case row c of None \<Rightarrow> Null | Some v \<Rightarrow> v)"

text \<open>
  Modelled from the spec: \<open>get_span\<close> and \<open>is_last_group_row\<close> of
  \<open>redmail/email/envs.py\<close>, which this module imports and only hands to the table
  templates. Section 4.1 of the specification gives the algorithm.

  \<open>differs t k i\<close>: some grouping column among the columns \<open>0..k\<close> has, in row \<open>i\<close>, a
  value other than the previous row's.
\<close>

definition differs :: "TabularData \<Rightarrow> nat \<Rightarrow> nat \<Rightarrow> bool" where
  "differs t k i =
     list_ex (\<lambda>c. cell_at (rows t ! i) c \<noteq> cell_at (rows t ! (i - 1)) c)
       (take (Suc k) (grouping t))"

text \<open>
  Modelled from the spec: a row starts a new group in the grouping column at position
  \<open>k\<close> if it is the first row, or any of the columns \<open>0..k\<close> differs from the previous
  row, or the enclosing group (column \<open>k - 1\<close>) starts at this row. With no grouping
  columns every row is its own group.
\<close>

fun starts_group :: "TabularData \<Rightarrow> nat \<Rightarrow> nat \<Rightarrow> bool" where
  "starts_group t 0 i = (grouping t = [] \<or> i = 0 \<or> differs t 0 i)"
| "starts_group t (Suc k) i =
     (grouping t = [] \<or> i = 0 \<or> differs t (Suc k) i \<or> starts_group t k i)"

text \<open>
  Modelled from the spec: the span of a group-starting row counts the row itself and the
  consecutive following rows that do not start a new group in that column; a row that
  does not start a group has span 0.
\<close>

definition count_span :: "TabularData \<Rightarrow> nat \<Rightarrow> nat \<Rightarrow> nat" where
  "count_span t k i =
     (if starts_group t k i
      then Suc (length (takeWhile (\<lambda>j. \<not> starts_group t k j) [Suc i ..< length (rows t)]))
      else 0)"

text \<open>Modelled from the spec: the group span of a cell (section 3).\<close>

record GroupSpan =
  is_group_start :: bool
  span_length :: nat

text \<open>Modelled from the spec: the group span of row \<open>i\<close> in grouping column \<open>k\<close>.\<close>

definition get_span :: "TabularData \<Rightarrow> nat \<Rightarrow> nat \<Rightarrow> GroupSpan" where
  "get_span t i k = \<lparr>is_group_start = starts_group t k i, span_length = count_span t k i\<rparr>"

text \<open>Modelled from the spec: the next row is out of range or starts a new group.\<close>

definition is_last_group_row :: "TabularData \<Rightarrow> nat \<Rightarrow> nat \<Rightarrow> bool" where
  "is_last_group_row t i k = (Suc i \<ge> length (rows t) \<or> starts_group t k (Suc i))"

section \<open>The message under construction\<close>

text \<open>
  Modelled from the spec: inline resources and attachments as section 3 of the
  specification describes them; payloads are byte strings.
\<close>

datatype InlineResource =
  InlineResource (resource_id: string) (resource_media_type: string) (resource_payload: string)

datatype transfer_encoding = Base64 | QuotedPrintable | NoEncoding

datatype Attachment =
  Attachment (filename: string) (media_type: string) (payload: string)
    (encoding: transfer_encoding)

datatype header_value = HeaderStr "string option" | HeaderAddr addresses

text \<open>
  An \<open>EmailMessage\<close> (of the standard library): its headers in the order they were
  set, and the content the \<open>attach\<close> calls have put into it.
\<close>

record EmailMessage =
  headers :: "(string \<times> header_value) list"
  text_part :: "string option"
  html_part :: "string option"
  inline_resources :: "InlineResource list"
  attachments :: "Attachment list"

text \<open>
  \<open>msg[name] = value\<close> appends a header. The standard library's own checks of a
  header value (it refuses a value with a line break) are outside this module and are
  left out: the value is stored as given.
\<close>

definition set_header :: "string \<Rightarrow> header_value \<Rightarrow> EmailMessage \<Rightarrow> EmailMessage" where
  "set_header name v msg = msg\<lparr>headers := headers msg @ [(name, v)]\<rparr>"

definition EmailMessage_new :: EmailMessage where
  "EmailMessage_new =
     \<lparr>headers = [], text_part = None, html_part = None, inline_resources = [],
      attachments = []\<rparr>"

text \<open>The MIME tree of a message.\<close>

datatype part =
    TextPart string
  | HtmlPart string
  | ResourcePart InlineResource
  | AttachmentPart Attachment
  | Alternative "part list"
  | Related "part list"
  | Mixed "part list"

text \<open>
  Modelled from the spec: the tree the \<open>attach\<close> methods of \<open>redmail/email/body.py\<close>
  and \<open>redmail/email/attachment.py\<close> leave in the message (section 4.6). With inline
  resources the HTML part and its resources are wrapped in \<open>multipart/related\<close>.
\<close>

definition html_node :: "string \<Rightarrow> InlineResource list \<Rightarrow> part" where
  "html_node h rs = (if rs \<noteq> [] then Related (HtmlPart h # map ResourcePart rs) else HtmlPart h)"

text \<open>
  Modelled from the spec: text and HTML together are wrapped in
  \<open>multipart/alternative\<close>, text first; one of them alone is the body itself.
\<close>

definition body_part :: "EmailMessage \<Rightarrow> part option" where
  "body_part msg =
     (case (text_part msg, html_part msg) of
        (Some t, Some h) \<Rightarrow> Some (Alternative [TextPart t, html_node h (inline_resources msg)])
      | (Some t, None) \<Rightarrow> Some (TextPart t)
      | (None, Some h) \<Rightarrow> Some (html_node h (inline_resources msg))
      | (None, None) \<Rightarrow> None)"

text \<open>
  Modelled from the spec: with attachments the body is the first child of a
  \<open>multipart/mixed\<close> root next to the attachments; without attachments the body is the
  payload.
\<close>

definition mime_tree :: "EmailMessage \<Rightarrow> part option" where
  "mime_tree msg =
     (if attachments msg \<noteq> []
      then Some (Mixed ((case body_part msg of None \<Rightarrow> [] | Some b \<Rightarrow> [b])
                         @ map AttachmentPart (attachments msg)))
      else body_part msg)"

section \<open>Collaborators\<close>

text \<open>
  The errors of the collaborators (section 7 of the specification) and the errors a call
  of this module can end with: the \<open>ValueError\<close> of \<open>get_message\<close> with its message,
  Jinja's \<open>TemplateNotFound\<close>, an error of a collaborator and an error of the
  transport.
\<close>

datatype collab_error =
    TemplateRenderError
  | DuplicateResourceKey
  | AttachmentReadError
  | UnsupportedAttachmentFormat

datatype error =
    ValueError string
  | TemplateNotFound string
  | CollabError collab_error
  | DeliveryError

datatype image_input = ImagePath string | ImageBytes string

datatype attachment_input =
    AttachText string
  | AttachPath string
  | AttachBytes string
  | AttachTable TabularData

type_synonym template = string
type_synonym jinja_env = "string \<rightharpoonup> template"

text \<open>
  Rendering and attachment resolution happen in \<open>redmail.email.body\<close> and
  \<open>redmail.email.attachment\<close>, with Jinja. This module hands them its arguments; what
  they compute is a parameter here. \<open>render_text template table_template text tables
  jinja_params\<close> is the text a \<open>TextBody\<close> renders, \<open>render_html\<close> the markup and the
  inline resources an \<open>HTMLBody\<close> renders, \<open>resolve_attachments\<close> the parts
  \<open>Attachments\<close> builds.
\<close>

record collaborators =
  render_text ::
    "template option \<Rightarrow> template option \<Rightarrow> string option
      \<Rightarrow> (string \<times> TabularData) list option \<Rightarrow> params \<Rightarrow> collab_error + string"
  render_html ::
    "template option \<Rightarrow> template option \<Rightarrow> string option
      \<Rightarrow> (string \<times> image_input) list option
      \<Rightarrow> (string \<times> TabularData) list option \<Rightarrow> params
      \<Rightarrow> collab_error + string \<times> InlineResource list"
  resolve_attachments ::
    "(string \<times> attachment_input) list \<Rightarrow> string \<Rightarrow> collab_error + Attachment list"

text \<open>Sequencing of steps that may raise.\<close>

definition bind_err :: "error + 'a \<Rightarrow> ('a \<Rightarrow> error + 'b) \<Rightarrow> error + 'b" where
  "bind_err r f = (case r of Inl e \<Rightarrow> Inl e | Inr x \<Rightarrow> f x)"

definition lift_collab :: "collab_error + 'a \<Rightarrow> error + 'a" where
  "lift_collab r = (case r of Inl e \<Rightarrow> Inl (CollabError e) | Inr x \<Rightarrow> Inr x)"

text \<open>\<open>env.get_template(name)\<close> raises \<open>TemplateNotFound\<close> for an unknown name.\<close>

definition get_template :: "jinja_env \<Rightarrow> string \<Rightarrow> error + template option" where
  "get_template env name =
     (case env name of None \<Rightarrow> Inl (TemplateNotFound name) | Some t \<Rightarrow> Inr (Some t))"

text \<open>
  Modelled from the spec: \<open>TextBody.attach\<close> of \<open>redmail/email/body.py\<close> renders the
  text and makes it the text part of the message.
\<close>

definition TextBody_attach ::
  "collaborators \<Rightarrow> template option \<Rightarrow> template option \<Rightarrow> EmailMessage \<Rightarrow> string option
    \<Rightarrow> (string \<times> TabularData) list option \<Rightarrow> params \<Rightarrow> error + EmailMessage" where
  "TextBody_attach co tmpl table_tmpl msg txt tables jinja_params =
     bind_err (lift_collab (render_text co tmpl table_tmpl txt tables jinja_params))
       (\<lambda>rendered. Inr (msg\<lparr>text_part := Some rendered\<rparr>))"

text \<open>
  Modelled from the spec: \<open>HTMLBody.attach\<close> of \<open>redmail/email/body.py\<close> renders the
  markup, embeds the images and tables it refers to and makes both the HTML part of the
  message.
\<close>

definition HTMLBody_attach ::
  "collaborators \<Rightarrow> template option \<Rightarrow> template option \<Rightarrow> EmailMessage \<Rightarrow> string option
    \<Rightarrow> (string \<times> image_input) list option \<Rightarrow> (string \<times> TabularData) list option
    \<Rightarrow> params \<Rightarrow> error + EmailMessage" where
  "HTMLBody_attach co tmpl table_tmpl msg markup images tables jinja_params =
     bind_err (lift_collab (render_html co tmpl table_tmpl markup images tables jinja_params))
       (\<lambda>(rendered, rs). Inr (msg\<lparr>html_part := Some rendered, inline_resources := rs\<rparr>))"

text \<open>
  Modelled from the spec: \<open>Attachments(attachments, encoding).attach(msg)\<close> of
  \<open>redmail/email/attachment.py\<close> resolves every attachment and adds them to the message.
\<close>

definition Attachments_attach ::
  "collaborators \<Rightarrow> (string \<times> attachment_input) list \<Rightarrow> string \<Rightarrow> EmailMessage
    \<Rightarrow> error + EmailMessage" where
  "Attachments_attach co atts enc msg =
     bind_err (lift_collab (resolve_attachments co atts enc))
       (\<lambda>resolved. Inr (msg\<lparr>attachments := attachments msg @ resolved\<rparr>))"

section \<open>Transport\<close>

text \<open>
  The calls made on \<open>cls_smtp\<close> and on the server object it returns. \<open>cls_smtp\<close> is a
  parameter of the sender: given the calls made so far and the next call, it says
  whether that call returns (\<open>True\<close>) or raises.
\<close>

datatype smtp_call =
    SMTP_init string int "(string \<times> string) list"
  | StartTLS
  | Login "string option" "string option"
  | SendMessage EmailMessage
  | Quit

section \<open>The \<open>EmailSender\<close> object\<close>

record EmailSender =
  host :: string
  port :: int
  user_name :: "string option"
  password :: "string option"
  sender :: "string option"
  receivers :: "addresses option"
  cc :: "addresses option"
  bcc :: "addresses option"
  subject :: "string option"
  "text" :: "string option"
  html :: "string option"
  html_template :: "string option"
  text_template :: "string option"
  use_starttls :: bool
  cls_smtp :: "smtp_call list \<Rightarrow> smtp_call \<Rightarrow> bool"
  kws_smtp :: "(string \<times> string) list"
  default_html_theme :: "string option"
  default_text_theme :: "string option"
  templates_html :: jinja_env
  templates_html_table :: jinja_env
  templates_text :: jinja_env
  templates_text_table :: jinja_env
  attachment_encoding :: string

text \<open>
  \<open>__init__\<close> (lines 130-151) with the class attributes (lines 112-128). The four Jinja
  environments load from the package's template directories: they are parameters.
\<close>

definition init ::
  "jinja_env \<Rightarrow> jinja_env \<Rightarrow> jinja_env \<Rightarrow> jinja_env \<Rightarrow> string \<Rightarrow> int \<Rightarrow> string option
    \<Rightarrow> string option \<Rightarrow> (smtp_call list \<Rightarrow> smtp_call \<Rightarrow> bool) \<Rightarrow> bool
    \<Rightarrow> (string \<times> string) list \<Rightarrow> EmailSender" where
  "init env_html env_html_table env_text env_text_table h p user pw smtp starttls kwargs =
     \<lparr>host = h, port = p, user_name = user, password = pw,
      sender = None, receivers = None, cc = None, bcc = None, subject = None,
      text = None, html = None, html_template = None, text_template = None,
      use_starttls = starttls, cls_smtp = smtp, kws_smtp = kwargs,
      default_html_theme = Some ''modest.html'', default_text_theme = Some ''pandas.txt'',
      templates_html = env_html, templates_html_table = env_html_table,
      templates_text = env_text, templates_text_table = env_text_table,
      attachment_encoding = ''UTF-8''\<rparr>"

text \<open>The arguments of \<open>send\<close> and \<open>get_message\<close>.\<close>

record message_args =
  arg_subject :: "string option"
  arg_sender :: "string option"
  arg_receivers :: "addresses option"
  arg_cc :: "addresses option"
  arg_bcc :: "addresses option"
  arg_html :: "string option"
  arg_text :: "string option"
  arg_html_template :: "string option"
  arg_text_template :: "string option"
  arg_body_images :: "(string \<times> image_input) list option"
  arg_body_tables :: "(string \<times> TabularData) list option"
  arg_body_params :: "params option"
  arg_attachments :: "(string \<times> attachment_input) list option"

text \<open>Every argument defaults to \<open>None\<close>.\<close>

definition no_args :: message_args where
  "no_args =
     \<lparr>arg_subject = None, arg_sender = None, arg_receivers = None, arg_cc = None,
      arg_bcc = None, arg_html = None, arg_text = None, arg_html_template = None,
      arg_text_template = None, arg_body_images = None, arg_body_tables = None,
      arg_body_params = None, arg_attachments = None\<rparr>"

subsection \<open>Resolving arguments against the defaults\<close>

text \<open>\<open>get_sender\<close>: \<open>sender or self.sender or self.user_name\<close>.\<close>

definition get_sender :: "EmailSender \<Rightarrow> string option \<Rightarrow> string option" where
  "get_sender self snd_arg = or_str (or_str snd_arg (sender self)) (user_name self)"

definition get_receivers :: "EmailSender \<Rightarrow> addresses option \<Rightarrow> addresses option" where
  "get_receivers self rcv = or_addr rcv (receivers self)"

definition get_cc :: "EmailSender \<Rightarrow> addresses option \<Rightarrow> addresses option" where
  "get_cc self c = or_addr c (cc self)"

definition get_bcc :: "EmailSender \<Rightarrow> addresses option \<Rightarrow> addresses option" where
  "get_bcc self b = or_addr b (bcc self)"

text \<open>The local names of \<open>get_message\<close> after lines 287-297.\<close>

record resolved =
  r_subject :: "string option"
  r_sender :: "string option"
  r_receivers :: "addresses option"
  r_cc :: "addresses option"
  r_bcc :: "addresses option"
  r_html :: "string option"
  r_text :: "string option"
  r_html_template :: "string option"
  r_text_template :: "string option"

definition resolve_args :: "EmailSender \<Rightarrow> message_args \<Rightarrow> resolved" where
  "resolve_args self a =
     \<lparr>r_subject = or_str (arg_subject a) (subject self),
      r_sender = get_sender self (arg_sender a),
      r_receivers = get_receivers self (arg_receivers a),
      r_cc = get_cc self (arg_cc a),
      r_bcc = get_bcc self (arg_bcc a),
      r_html = or_str (arg_html a) (html self),
      r_text = or_str (arg_text a) (text self),
      r_html_template = or_str (arg_html_template a) (html_template self),
      r_text_template = or_str (arg_text_template a) (text_template self)\<rparr>"

subsection \<open>Jinja parameters\<close>

definition get_params :: "platform \<Rightarrow> EmailSender \<Rightarrow> string option \<Rightarrow> params" where
  "get_params pf self snd_addr =
     [(''node'', PyStr (node pf)),
      (''user'', PyStr (getuser pf)),
      (''now'', PyDateTime (now pf)),
      (''sender'', EmailAddress snd_addr)]"

definition get_html_params ::
  "platform \<Rightarrow> EmailSender \<Rightarrow> params option \<Rightarrow> string option \<Rightarrow> params" where
  "get_html_params pf self extra snd_addr =
     (let params = get_params pf self snd_addr;
          params = dict_update params [(''error'', Error ''html-inline'')]
      in if truthy_dict extra then dict_update params (the extra) else params)"

definition get_text_params ::
  "platform \<Rightarrow> EmailSender \<Rightarrow> params option \<Rightarrow> string option \<Rightarrow> params" where
  "get_text_params pf self extra snd_addr =
     (let params = get_params pf self snd_addr;
          params = dict_update params [(''error'', Error ''text'')]
      in if truthy_dict extra then dict_update params (the extra) else params)"

subsection \<open>Templates\<close>

definition get_html_table_template :: "EmailSender \<Rightarrow> string option \<Rightarrow> error + template option" where
  "get_html_table_template self layout =
     (let layout = (if layout = None then default_html_theme self else layout)
      in case layout of None \<Rightarrow> Inr None
         | Some name \<Rightarrow> get_template (templates_html_table self) name)"

definition get_html_template :: "EmailSender \<Rightarrow> string option \<Rightarrow> error + template option" where
  "get_html_template self layout =
     (case layout of None \<Rightarrow> Inr None
      | Some name \<Rightarrow> get_template (templates_html self) name)"

definition get_text_table_template :: "EmailSender \<Rightarrow> string option \<Rightarrow> error + template option" where
  "get_text_table_template self layout =
     (let layout = (if layout = None then default_text_theme self else layout)
      in case layout of None \<Rightarrow> Inr None
         | Some name \<Rightarrow> get_template (templates_text_table self) name)"

definition get_text_template :: "EmailSender \<Rightarrow> string option \<Rightarrow> error + template option" where
  "get_text_template self layout =
     (case layout of None \<Rightarrow> Inr None
      | Some name \<Rightarrow> get_template (templates_text self) name)"

subsection \<open>Composing the message\<close>

text \<open>\<open>_create_body\<close> (lines 355-367).\<close>

definition create_body ::
  "string \<Rightarrow> string option \<Rightarrow> addresses option \<Rightarrow> addresses option \<Rightarrow> addresses option
    \<Rightarrow> EmailMessage" where
  "create_body subj snd_addr rcv c b =
     (let msg = EmailMessage_new;
          msg = set_header ''from'' (HeaderStr snd_addr) msg;
          msg = set_header ''subject'' (HeaderStr (Some subj)) msg;
          msg = (if truthy_addr rcv then set_header ''to'' (HeaderAddr (the rcv)) msg else msg);
          msg = (if truthy_addr c then set_header ''cc'' (HeaderAddr (the c)) msg else msg);
          msg = (if truthy_addr b then set_header ''bcc'' (HeaderAddr (the b)) msg else msg)
      in msg)"

text \<open>Lines 310-320: the text body.\<close>

definition attach_text ::
  "collaborators \<Rightarrow> platform \<Rightarrow> EmailSender \<Rightarrow> message_args \<Rightarrow> resolved \<Rightarrow> EmailMessage
    \<Rightarrow> error + EmailMessage" where
  "attach_text co pf self a r msg =
     (if r_text r \<noteq> None \<or> r_text_template r \<noteq> None
      then bind_err (get_text_template self (r_text_template r)) (\<lambda>tmpl.
           bind_err (get_text_table_template self None) (\<lambda>table_tmpl.
             TextBody_attach co tmpl table_tmpl msg (r_text r) (arg_body_tables a)
               (get_text_params pf self (arg_body_params a) (r_sender r))))
      else Inr msg)"

text \<open>Lines 322-333: the HTML body.\<close>

definition attach_html ::
  "collaborators \<Rightarrow> platform \<Rightarrow> EmailSender \<Rightarrow> message_args \<Rightarrow> resolved \<Rightarrow> EmailMessage
    \<Rightarrow> error + EmailMessage" where
  "attach_html co pf self a r msg =
     (if r_html r \<noteq> None \<or> r_html_template r \<noteq> None
      then bind_err (get_html_template self (r_html_template r)) (\<lambda>tmpl.
           bind_err (get_html_table_template self None) (\<lambda>table_tmpl.
             HTMLBody_attach co tmpl table_tmpl msg (r_html r) (arg_body_images a)
               (arg_body_tables a)
               (get_html_params pf self (arg_body_params a) (r_sender r))))
      else Inr msg)"

text \<open>Lines 334-336: the attachments, when the dict is not empty.\<close>

definition attach_files ::
  "collaborators \<Rightarrow> EmailSender \<Rightarrow> message_args \<Rightarrow> EmailMessage \<Rightarrow> error + EmailMessage" where
  "attach_files co self a msg =
     (case arg_attachments a of
        None \<Rightarrow> Inr msg
      | Some atts \<Rightarrow>
          if atts \<noteq> [] then Attachments_attach co atts (attachment_encoding self) msg
          else Inr msg)"

text \<open>\<open>get_message\<close> (lines 271-337).\<close>

definition get_message ::
  "collaborators \<Rightarrow> platform \<Rightarrow> EmailSender \<Rightarrow> message_args \<Rightarrow> error + EmailMessage" where
  "get_message co pf self a =
     (let r = resolve_args self a
      in case r_subject r of
           None \<Rightarrow> Inl (ValueError ''Email must have a subject'')
         | Some subj \<Rightarrow>
             bind_err (attach_text co pf self a r
                         (create_body subj (r_sender r) (r_receivers r) (r_cc r) (r_bcc r)))
               (\<lambda>msg. bind_err (attach_html co pf self a r msg)
               (\<lambda>msg. attach_files co self a msg)))"

subsection \<open>Sending\<close>

text \<open>
  A transport step makes one call on the SMTP collaborator. The call is recorded in the
  trace whether it returns or raises.
\<close>

type_synonym trace = "smtp_call list"

definition smtp_do :: "EmailSender \<Rightarrow> smtp_call \<Rightarrow> trace \<Rightarrow> (error + unit) \<times> trace" where
  "smtp_do self c tr = (if cls_smtp self tr c then Inr () else Inl DeliveryError, tr @ [c])"

definition then_do ::
  "(error + unit) \<times> trace \<Rightarrow> (trace \<Rightarrow> (error + unit) \<times> trace) \<Rightarrow> (error + unit) \<times> trace" where
  "then_do r f = (case r of (Inl e, tr) \<Rightarrow> (Inl e, tr) | (Inr u, tr) \<Rightarrow> f tr)"

text \<open>\<open>connect\<close> (lines 377-388).\<close>

definition connect :: "EmailSender \<Rightarrow> trace \<Rightarrow> (error + unit) \<times> trace" where
  "connect self tr =
     then_do (smtp_do self (SMTP_init (host self) (port self) (kws_smtp self)) tr) (\<lambda>tr.
     then_do (if use_starttls self then smtp_do self StartTLS tr else (Inr (), tr)) (\<lambda>tr.
       if user_name self \<noteq> None \<or> password self \<noteq> None
       then smtp_do self (Login (user_name self) (password self)) tr
       else (Inr (), tr)))"

text \<open>\<open>send_message\<close> (lines 369-375).\<close>

definition send_message :: "EmailSender \<Rightarrow> EmailMessage \<Rightarrow> trace \<Rightarrow> (error + unit) \<times> trace" where
  "send_message self msg tr =
     then_do (connect self tr) (\<lambda>tr.
     then_do (smtp_do self (SendMessage msg) tr) (\<lambda>tr.
       smtp_do self Quit tr))"

text \<open>
  \<open>send\<close> (lines 253-269): the result and the transport calls made, starting from an
  empty trace.
\<close>

definition send ::
  "collaborators \<Rightarrow> platform \<Rightarrow> EmailSender \<Rightarrow> message_args
    \<Rightarrow> (error + EmailMessage) \<times> trace" where
  "send co pf self a =
     (case get_message co pf self a of
        Inl e \<Rightarrow> (Inl e, [])
      | Inr msg \<Rightarrow>
          (case send_message self msg [] of
             (Inl e, tr) \<Rightarrow> (Inl e, tr)
           | (Inr u, tr) \<Rightarrow> (Inr msg, tr)))"

section \<open>The methods as operations on the object\<close>

text \<open>
  A method runs on the object it is called on: it can read the attributes of \<open>self\<close>,
  assign to them, and raise. As a function it takes the object before the call and
  returns the result (or the error) together with the object after the call.
  \<open>attribute f\<close> is the read \<open>self.f\<close>, \<open>assign upd\<close> an assignment to an attribute,
  \<open>and_then m f\<close> runs \<open>m\<close> and hands its result to \<open>f\<close>; an error ends the method with
  the object as it is at that point.
\<close>

type_synonym 'a operation = "EmailSender \<Rightarrow> (error + 'a) \<times> EmailSender"

definition returns :: "'a \<Rightarrow> 'a operation" where
  "returns x self = (Inr x, self)"

definition raises :: "error \<Rightarrow> 'a operation" where
  "raises e self = (Inl e, self)"

definition from_result :: "error + 'a \<Rightarrow> 'a operation" where
  "from_result r self = (r, self)"

definition attribute :: "(EmailSender \<Rightarrow> 'a) \<Rightarrow> 'a operation" where
  "attribute f self = (Inr (f self), self)"

definition assign :: "(EmailSender \<Rightarrow> EmailSender) \<Rightarrow> unit operation" where
  "assign upd self = (Inr (), upd self)"

definition and_then :: "'a operation \<Rightarrow> ('a \<Rightarrow> 'b operation) \<Rightarrow> 'b operation" where
  "and_then m f self = (case m self of (Inl e, self') \<Rightarrow> (Inl e, self') | (Inr x, self') \<Rightarrow> f x self')"

text \<open>
  \<open>x or self.x\<close> for a string and for addresses: the attribute is read when the argument
  is falsy.
\<close>

definition or_attribute :: "string option \<Rightarrow> (EmailSender \<Rightarrow> string option) \<Rightarrow> string option operation" where
  "or_attribute v f = (if truthy_str v then returns v else attribute f)"

definition or_addr_attribute ::
  "addresses option \<Rightarrow> (EmailSender \<Rightarrow> addresses option) \<Rightarrow> addresses option operation" where
  "or_addr_attribute v f = (if truthy_addr v then returns v else attribute f)"

text \<open>\<open>get_sender\<close>, \<open>get_receivers\<close>, \<open>get_cc\<close>, \<open>get_bcc\<close> (lines 339-353).\<close>

definition get_sender_method :: "string option \<Rightarrow> string option operation" where
  "get_sender_method snd_arg =
     and_then (or_attribute snd_arg sender) (\<lambda>v.
       if truthy_str v then returns v else attribute user_name)"

definition get_receivers_method :: "addresses option \<Rightarrow> addresses option operation" where
  "get_receivers_method rcv = or_addr_attribute rcv receivers"

definition get_cc_method :: "addresses option \<Rightarrow> addresses option operation" where
  "get_cc_method c = or_addr_attribute c cc"

definition get_bcc_method :: "addresses option \<Rightarrow> addresses option operation" where
  "get_bcc_method b = or_addr_attribute b bcc"

text \<open>\<open>_create_body\<close> (lines 355-367) builds a new message and uses no attribute.\<close>

definition create_body_method ::
  "string \<Rightarrow> string option \<Rightarrow> addresses option \<Rightarrow> addresses option \<Rightarrow> addresses option
    \<Rightarrow> EmailMessage operation" where
  "create_body_method subj snd_addr rcv c b = returns (create_body subj snd_addr rcv c b)"

text \<open>\<open>get_params\<close>, \<open>get_html_params\<close>, \<open>get_text_params\<close> (lines 390-418).\<close>

definition get_params_method :: "platform \<Rightarrow> string option \<Rightarrow> params operation" where
  "get_params_method pf snd_addr =
     returns
       [(''node'', PyStr (node pf)),
        (''user'', PyStr (getuser pf)),
        (''now'', PyDateTime (now pf)),
        (''sender'', EmailAddress snd_addr)]"

definition get_html_params_method ::
  "platform \<Rightarrow> params option \<Rightarrow> string option \<Rightarrow> params operation" where
  "get_html_params_method pf extra snd_addr =
     and_then (get_params_method pf snd_addr) (\<lambda>params.
       let params = dict_update params [(''error'', Error ''html-inline'')]
       in returns (if truthy_dict extra then dict_update params (the extra) else params))"

definition get_text_params_method ::
  "platform \<Rightarrow> params option \<Rightarrow> string option \<Rightarrow> params operation" where
  "get_text_params_method pf extra snd_addr =
     and_then (get_params_method pf snd_addr) (\<lambda>params.
       let params = dict_update params [(''error'', Error ''text'')]
       in returns (if truthy_dict extra then dict_update params (the extra) else params))"

text \<open>The template getters (lines 420-444).\<close>

definition get_html_table_template_method :: "string option \<Rightarrow> template option operation" where
  "get_html_table_template_method layout =
     and_then (if layout = None then attribute default_html_theme else returns layout) (\<lambda>layout.
       case layout of None \<Rightarrow> returns None
       | Some name \<Rightarrow>
           and_then (attribute templates_html_table) (\<lambda>env. from_result (get_template env name)))"

definition get_html_template_method :: "string option \<Rightarrow> template option operation" where
  "get_html_template_method layout =
     (case layout of None \<Rightarrow> returns None
      | Some name \<Rightarrow>
          and_then (attribute templates_html) (\<lambda>env. from_result (get_template env name)))"

definition get_text_table_template_method :: "string option \<Rightarrow> template option operation" where
  "get_text_table_template_method layout =
     and_then (if layout = None then attribute default_text_theme else returns layout) (\<lambda>layout.
       case layout of None \<Rightarrow> returns None
       | Some name \<Rightarrow>
           and_then (attribute templates_text_table) (\<lambda>env. from_result (get_template env name)))"

definition get_text_template_method :: "string option \<Rightarrow> template option operation" where
  "get_text_template_method layout =
     (case layout of None \<Rightarrow> returns None
      | Some name \<Rightarrow>
          and_then (attribute templates_text) (\<lambda>env. from_result (get_template env name)))"

text \<open>
  \<open>get_message\<close> (lines 271-337), statement by statement. The names bound by the
  \<open>and_then\<close> steps are the local names of the method; \<open>msg\<close> is the message object
  that \<open>_create_body\<close> makes and the \<open>attach\<close> calls fill.
\<close>

definition get_message_method ::
  "collaborators \<Rightarrow> platform \<Rightarrow> message_args \<Rightarrow> EmailMessage operation" where
  "get_message_method co pf a =
     and_then (or_attribute (arg_subject a) subject) (\<lambda>subject_v.
     and_then (get_sender_method (arg_sender a)) (\<lambda>sender_v.
     and_then (get_receivers_method (arg_receivers a)) (\<lambda>receivers_v.
     and_then (get_cc_method (arg_cc a)) (\<lambda>cc_v.
     and_then (get_bcc_method (arg_bcc a)) (\<lambda>bcc_v.
     and_then (or_attribute (arg_html a) html) (\<lambda>html_v.
     and_then (or_attribute (arg_text a) text) (\<lambda>text_v.
     and_then (or_attribute (arg_html_template a) html_template) (\<lambda>html_template_v.
     and_then (or_attribute (arg_text_template a) text_template) (\<lambda>text_template_v.
       case subject_v of
         None \<Rightarrow> raises (ValueError ''Email must have a subject'')
       | Some subj \<Rightarrow>
           and_then (create_body_method subj sender_v receivers_v cc_v bcc_v) (\<lambda>msg.
           and_then
             (if text_v \<noteq> None \<or> text_template_v \<noteq> None
              then and_then (get_text_template_method text_template_v) (\<lambda>tmpl.
                   and_then (get_text_table_template_method None) (\<lambda>table_tmpl.
                   and_then (get_text_params_method pf (arg_body_params a) sender_v) (\<lambda>ps.
                     from_result
                       (TextBody_attach co tmpl table_tmpl msg text_v (arg_body_tables a) ps))))
              else returns msg) (\<lambda>msg.
           and_then
             (if html_v \<noteq> None \<or> html_template_v \<noteq> None
              then and_then (get_html_template_method html_template_v) (\<lambda>tmpl.
                   and_then (get_html_table_template_method None) (\<lambda>table_tmpl.
                   and_then (get_html_params_method pf (arg_body_params a) sender_v) (\<lambda>ps.
                     from_result
                       (HTMLBody_attach co tmpl table_tmpl msg html_v (arg_body_images a)
                          (arg_body_tables a) ps))))
              else returns msg) (\<lambda>msg.
             case arg_attachments a of
               None \<Rightarrow> returns msg
             | Some atts \<Rightarrow>
                 if atts \<noteq> []
                 then and_then (attribute attachment_encoding) (\<lambda>enc.
                        from_result (Attachments_attach co atts enc msg))
                 else returns msg))))))))))))"

text \<open>
  \<open>set_template_paths\<close> (lines 446-469) is the method of the class that assigns to
  attributes. \<open>load path\<close> is the Jinja environment that loads from \<open>path\<close>.
\<close>

definition set_template_paths ::
  "(string \<Rightarrow> jinja_env) \<Rightarrow> string option \<Rightarrow> string option \<Rightarrow> string option \<Rightarrow> string option
    \<Rightarrow> unit operation" where
  "set_template_paths load html_path text_path html_table_path text_table_path =
     and_then
       (case html_path of None \<Rightarrow> returns ()
        | Some p \<Rightarrow> assign (\<lambda>self. self\<lparr>templates_html := load p\<rparr>)) (\<lambda>u.
     and_then
       (case text_path of None \<Rightarrow> returns ()
        | Some p \<Rightarrow> assign (\<lambda>self. self\<lparr>templates_text := load p\<rparr>)) (\<lambda>u.
     and_then
       (case html_table_path of None \<Rightarrow> returns ()
        | Some p \<Rightarrow> assign (\<lambda>self. self\<lparr>templates_html_table := load p\<rparr>)) (\<lambda>u.
       case text_table_path of None \<Rightarrow> returns ()
       | Some p \<Rightarrow> assign (\<lambda>self. self\<lparr>templates_text_table := load p\<rparr>))))"

text \<open>A method that only reads: whatever the object, it returns it as it was.\<close>

definition reads_only :: "'a operation \<Rightarrow> bool" where
  "reads_only m = (\<forall>self. snd (m self) = self)"

section \<open>Example inputs\<close>

text \<open>
  Collaborators that render a body to its source text (or to the template when there is
  no source), embed nothing and turn every attachment into an empty base64 part.
\<close>

definition echo_source :: "template option \<Rightarrow> string option \<Rightarrow> string" where
  "echo_source tmpl src =
     (case src of Some s \<Rightarrow> s | None \<Rightarrow> (case tmpl of Some t \<Rightarrow> t | None \<Rightarrow> []))"

definition echo_collaborators :: collaborators where
  "echo_collaborators =
     \<lparr>render_text = (\<lambda>tmpl table_tmpl src tables ps. Inr (echo_source tmpl src)),
      render_html = (\<lambda>tmpl table_tmpl src images tables ps. Inr (echo_source tmpl src, [])),
      resolve_attachments =
        (\<lambda>atts enc. Inr (map (\<lambda>(name, input). Attachment name ''application/octet-stream'' [] Base64) atts))\<rparr>"

definition example_platform :: platform where
  "example_platform = \<lparr>node = ''host1'', getuser = ''alice'', now = 0\<rparr>"

text \<open>An SMTP collaborator whose calls all return.\<close>

definition smtp_ok :: "smtp_call list \<Rightarrow> smtp_call \<Rightarrow> bool" where
  "smtp_ok tr c = True"

definition table_themes :: jinja_env where
  "table_themes = [''modest.html'' \<mapsto> ''<table/>'', ''pandas.txt'' \<mapsto> ''table'']"

text \<open>\<open>EmailSender(host='localhost', port=0, user_name='bot@example.com')\<close>.\<close>

definition example_sender :: EmailSender where
  "example_sender =
     init Map.empty table_themes Map.empty table_themes ''localhost'' 0
       (Some ''bot@example.com'') None smtp_ok True []"

text \<open>The table of the specification's grouping scenario, grouped by \<open>dept\<close>.\<close>

definition example_table :: TabularData where
  "example_table =
     \<lparr>columns = [''dept'', ''name''],
      rows = [[''dept'' \<mapsto> Str ''A'', ''name'' \<mapsto> Str ''x''],
              [''dept'' \<mapsto> Str ''A'', ''name'' \<mapsto> Str ''y''],
              [''dept'' \<mapsto> Str ''B'', ''name'' \<mapsto> Str ''z'']],
      grouping = [''dept'']\<rparr>"

text \<open>The example sender with a default subject.\<close>

definition weekly_sender :: EmailSender where
  "weekly_sender = example_sender\<lparr>subject := Some ''Weekly report''\<rparr>"

text \<open>
  Collaborators that render every body to the value of its \<open>error\<close> parameter: the
  content type of an \<open>Error\<close> marker, or the string itself.
\<close>

definition show_error :: "params \<Rightarrow> string" where
  "show_error ps =
     (case map_of ps ''error'' of
        Some (Error content_type) \<Rightarrow> content_type
      | Some (PyStr s) \<Rightarrow> s
      | _ \<Rightarrow> [])"

definition marker_collaborators :: collaborators where
  "marker_collaborators =
     echo_collaborators
       \<lparr>render_text := (\<lambda>tmpl table_tmpl src tables ps. Inr (show_error ps)),
        render_html := (\<lambda>tmpl table_tmpl src images tables ps. Inr (show_error ps, []))\<rparr>"


section \<open>Properties\<close>

subsection \<open>Python's \<open>or\<close>\<close>

lemma or_str_None [simp]: "or_str None b = b"
  by (simp add: or_str_def truthy_str_def)

lemma or_str_empty [simp]: "or_str (Some []) b = b"
  by (simp add: or_str_def truthy_str_def)

lemma or_str_value [simp]: "s \<noteq> [] \<Longrightarrow> or_str (Some s) b = Some s"
  by (simp add: or_str_def truthy_str_def)

lemma or_str_eq_None: "or_str a b = None \<longleftrightarrow> \<not> truthy_str a \<and> b = None"
  by (cases a) (auto simp: or_str_def truthy_str_def)

subsection \<open>Which errors the steps of a composition raise\<close>

lemma bind_err_Inl:
  "bind_err r f = Inl e \<longleftrightarrow> r = Inl e \<or> (\<exists>x. r = Inr x \<and> f x = Inl e)"
  by (cases r) (simp_all add: bind_err_def)

lemma bind_err_Inr:
  "bind_err r f = Inr y \<longleftrightarrow> (\<exists>x. r = Inr x \<and> f x = Inr y)"
  by (cases r) (simp_all add: bind_err_def)

lemma lift_collab_not_ValueError: "lift_collab r \<noteq> Inl (ValueError m)"
  by (cases r) (simp_all add: lift_collab_def)

lemma get_template_not_ValueError: "get_template env n \<noteq> Inl (ValueError m)"
  by (simp add: get_template_def split: option.splits)

lemma attach_text_not_ValueError: "attach_text co pf self a r msg \<noteq> Inl (ValueError m)"
  by (auto simp: attach_text_def bind_err_Inl TextBody_attach_def lift_collab_not_ValueError
      get_text_template_def get_text_table_template_def get_template_not_ValueError Let_def
      split: option.splits)

lemma attach_html_not_ValueError: "attach_html co pf self a r msg \<noteq> Inl (ValueError m)"
  by (auto simp: attach_html_def bind_err_Inl HTMLBody_attach_def lift_collab_not_ValueError
      get_html_template_def get_html_table_template_def get_template_not_ValueError Let_def
      split: option.splits prod.splits)

lemma attach_files_not_ValueError: "attach_files co self a msg \<noteq> Inl (ValueError m)"
  by (auto simp: attach_files_def bind_err_Inl Attachments_attach_def lift_collab_not_ValueError
      split: option.splits)

lemma get_message_no_subject:
  "r_subject (resolve_args self a) = None
    \<Longrightarrow> get_message co pf self a = Inl (ValueError ''Email must have a subject'')"
  by (simp add: get_message_def)

lemma get_message_with_subject:
  "r_subject (resolve_args self a) = Some s
    \<Longrightarrow> get_message co pf self a \<noteq> Inl (ValueError m)"
  by (simp add: get_message_def Let_def bind_err_Inl attach_text_not_ValueError
      attach_html_not_ValueError attach_files_not_ValueError)

lemma r_subject_resolve: "r_subject (resolve_args self a) = or_str (arg_subject a) (subject self)"
  by (simp add: resolve_args_def)

subsection \<open>Evaluating the examples\<close>

lemmas example_defs =
  example_sender_def init_def no_args_def example_platform_def echo_collaborators_def
  echo_source_def table_themes_def smtp_ok_def

lemmas compose_defs =
  get_message_def resolve_args_def get_sender_def get_receivers_def get_cc_def get_bcc_def
  or_str_def truthy_str_def or_addr_def truthy_addr_def create_body_def set_header_def
  EmailMessage_new_def attach_text_def attach_html_def attach_files_def bind_err_def
  lift_collab_def TextBody_attach_def HTMLBody_attach_def Attachments_attach_def
  get_text_template_def get_text_table_template_def get_html_template_def
  get_html_table_template_def get_template_def Let_def

subsection \<open>The missing-subject error\<close>

text \<open>
  Counterexample to C1 as stated: a call that supplies a text body and no subject, on a
  sender without a default subject, raises the error although body content is supplied.
\<close>

theorem get_message_text_without_subject:
  "arg_text (no_args\<lparr>arg_text := Some ''Hello''\<rparr>) = Some ''Hello'' \<and>
   get_message echo_collaborators example_platform example_sender
     (no_args\<lparr>arg_text := Some ''Hello''\<rparr>) = Inl (ValueError ''Email must have a subject'')"
  by (simp add: example_defs compose_defs)

text \<open>
  C1, amended: \<open>get_message\<close> raises \<open>ValueError("Email must have a subject")\<close> exactly
  when the subject argument is \<open>None\<close> or empty and the sender has no default subject,
  whatever text, HTML or attachment content the call supplies. With a non-empty subject
  argument or any default subject the error is not raised.
\<close>

theorem get_message_subject_error_iff:
  "get_message co pf self a = Inl (ValueError ''Email must have a subject'')
     \<longleftrightarrow> \<not> truthy_str (arg_subject a) \<and> subject self = None"
proof (cases "r_subject (resolve_args self a)")
  case None
  then show ?thesis
    using get_message_no_subject [of self a co pf]
    by (simp add: r_subject_resolve or_str_eq_None)
next
  case (Some s)
  then show ?thesis
    using get_message_with_subject [of self a s co pf]
    by (simp add: r_subject_resolve flip: or_str_eq_None)
qed

text \<open>
  The equivalence at two calls: a subject alone does not raise the error; an empty
  subject with an HTML body does.
\<close>

theorem get_message_subject_error_iff_witness:
  "get_message echo_collaborators example_platform example_sender
     (no_args\<lparr>arg_subject := Some ''Hi''\<rparr>) \<noteq> Inl (ValueError ''Email must have a subject'')
   \<and> get_message echo_collaborators example_platform example_sender
     (no_args\<lparr>arg_subject := Some [], arg_html := Some ''<p>Hello</p>''\<rparr>)
       = Inl (ValueError ''Email must have a subject'')"
  using get_message_subject_error_iff [of echo_collaborators example_platform example_sender
      "no_args\<lparr>arg_subject := Some ''Hi''\<rparr>"]
    get_message_subject_error_iff [of echo_collaborators example_platform example_sender
      "no_args\<lparr>arg_subject := Some [], arg_html := Some ''<p>Hello</p>''\<rparr>"]
  by (simp add: example_defs truthy_str_def)

subsection \<open>What a successful composition returns\<close>

lemma lift_collab_Inr: "lift_collab r = Inr x \<longleftrightarrow> r = Inr x"
  by (cases r) (simp_all add: lift_collab_def)

lemma attach_text_Inr:
  assumes "attach_text co pf self a r msg = Inr m"
    and "r_text r \<noteq> None \<or> r_text_template r \<noteq> None"
  shows "\<exists>tmpl table_tmpl t.
           get_text_template self (r_text_template r) = Inr tmpl \<and>
           get_text_table_template self None = Inr table_tmpl \<and>
           render_text co tmpl table_tmpl (r_text r) (arg_body_tables a)
             (get_text_params pf self (arg_body_params a) (r_sender r)) = Inr t \<and>
           m = msg\<lparr>text_part := Some t\<rparr>"
  using assms
  by (auto simp: attach_text_def bind_err_Inr TextBody_attach_def lift_collab_Inr)

lemma attach_html_Inr:
  assumes "attach_html co pf self a r msg = Inr m"
    and "r_html r \<noteq> None \<or> r_html_template r \<noteq> None"
  shows "\<exists>tmpl table_tmpl h rs.
           get_html_template self (r_html_template r) = Inr tmpl \<and>
           get_html_table_template self None = Inr table_tmpl \<and>
           render_html co tmpl table_tmpl (r_html r) (arg_body_images a) (arg_body_tables a)
             (get_html_params pf self (arg_body_params a) (r_sender r)) = Inr (h, rs) \<and>
           m = msg\<lparr>html_part := Some h, inline_resources := rs\<rparr>"
  using assms
  by (auto simp: attach_html_def bind_err_Inr HTMLBody_attach_def lift_collab_Inr
      split: prod.splits)

lemma attach_text_frame:
  assumes "attach_text co pf self a r msg = Inr m"
  shows "headers m = headers msg \<and> html_part m = html_part msg \<and>
         inline_resources m = inline_resources msg \<and> attachments m = attachments msg"
proof (cases "r_text r \<noteq> None \<or> r_text_template r \<noteq> None")
  case True
  from attach_text_Inr [OF assms True] show ?thesis by auto
next
  case False
  with assms show ?thesis by (simp add: attach_text_def)
qed

lemma attach_html_frame:
  assumes "attach_html co pf self a r msg = Inr m"
  shows "headers m = headers msg \<and> text_part m = text_part msg \<and>
         attachments m = attachments msg"
proof (cases "r_html r \<noteq> None \<or> r_html_template r \<noteq> None")
  case True
  from attach_html_Inr [OF assms True] show ?thesis by auto
next
  case False
  with assms show ?thesis by (simp add: attach_html_def)
qed

lemma attach_files_frame:
  assumes "attach_files co self a msg = Inr m"
  shows "headers m = headers msg \<and> text_part m = text_part msg \<and>
         html_part m = html_part msg \<and> inline_resources m = inline_resources msg"
  using assms
  by (auto simp: attach_files_def Attachments_attach_def bind_err_Inr lift_collab_Inr
      split: option.splits if_splits)

lemma get_message_Inr:
  "get_message co pf self a = Inr msg \<longleftrightarrow>
     (\<exists>subj m1 m2.
        r_subject (resolve_args self a) = Some subj \<and>
        attach_text co pf self a (resolve_args self a)
          (create_body subj (r_sender (resolve_args self a))
             (r_receivers (resolve_args self a)) (r_cc (resolve_args self a))
             (r_bcc (resolve_args self a))) = Inr m1 \<and>
        attach_html co pf self a (resolve_args self a) m1 = Inr m2 \<and>
        attach_files co self a m2 = Inr msg)"
  by (cases "r_subject (resolve_args self a)")
     (auto simp: get_message_def Let_def bind_err_Inr)

lemma headers_create_body:
  "headers (create_body subj s rcv c b) =
     [(''from'', HeaderStr s), (''subject'', HeaderStr (Some subj))]
     @ (if truthy_addr rcv then [(''to'', HeaderAddr (the rcv))] else [])
     @ (if truthy_addr c then [(''cc'', HeaderAddr (the c))] else [])
     @ (if truthy_addr b then [(''bcc'', HeaderAddr (the b))] else [])"
  by (simp add: create_body_def set_header_def EmailMessage_new_def Let_def)

lemma content_create_body:
  "text_part (create_body subj s rcv c b) = None \<and>
   html_part (create_body subj s rcv c b) = None \<and>
   inline_resources (create_body subj s rcv c b) = [] \<and>
   attachments (create_body subj s rcv c b) = []"
  by (simp add: create_body_def set_header_def EmailMessage_new_def Let_def)

lemma get_message_headers:
  assumes "get_message co pf self a = Inr msg"
  shows "\<exists>subj. r_subject (resolve_args self a) = Some subj \<and>
           headers msg =
             headers (create_body subj (r_sender (resolve_args self a))
               (r_receivers (resolve_args self a)) (r_cc (resolve_args self a))
               (r_bcc (resolve_args self a)))"
proof -
  from assms obtain subj m1 m2 where
    s: "r_subject (resolve_args self a) = Some subj" and
    t: "attach_text co pf self a (resolve_args self a)
          (create_body subj (r_sender (resolve_args self a))
             (r_receivers (resolve_args self a)) (r_cc (resolve_args self a))
             (r_bcc (resolve_args self a))) = Inr m1" and
    h: "attach_html co pf self a (resolve_args self a) m1 = Inr m2" and
    f: "attach_files co self a m2 = Inr msg"
    unfolding get_message_Inr by blast
  from attach_text_frame [OF t] attach_html_frame [OF h] attach_files_frame [OF f] s
  show ?thesis by simp
qed

lemma map_of_headers_create_body:
  "map_of (headers (create_body subj s rcv c b)) ''from'' = Some (HeaderStr s) \<and>
   map_of (headers (create_body subj s rcv c b)) ''subject'' = Some (HeaderStr (Some subj)) \<and>
   map_of (headers (create_body subj s rcv c b)) ''to''
     = (if truthy_addr rcv then Some (HeaderAddr (the rcv)) else None) \<and>
   map_of (headers (create_body subj s rcv c b)) ''cc''
     = (if truthy_addr c then Some (HeaderAddr (the c)) else None) \<and>
   map_of (headers (create_body subj s rcv c b)) ''bcc''
     = (if truthy_addr b then Some (HeaderAddr (the b)) else None)"
  by (simp add: headers_create_body)

subsection \<open>The sender address\<close>

text \<open>
  C8: the sender address is the \<open>sender\<close> argument when it is given (and not empty),
  otherwise the sender attribute of the object when it is set (and not empty), otherwise
  the \<open>user_name\<close> given at construction. A new object has no sender attribute, so the
  message of a call without a \<open>sender\<close> argument carries the user name as its
  from-address.
\<close>

theorem get_sender_fallback:
  "get_sender self s =
     (if truthy_str s then s
      else if truthy_str (sender self) then sender self
      else user_name self)
   \<and> sender (init e1 e2 e3 e4 h p user pw smtp tls kw) = None
   \<and> (\<forall>msg. get_message co pf (init e1 e2 e3 e4 h p user pw smtp tls kw)
               (a\<lparr>arg_sender := None\<rparr>) = Inr msg
         \<longrightarrow> map_of (headers msg) ''from'' = Some (HeaderStr user))"
proof (intro conjI allI impI)
  show "get_sender self s =
     (if truthy_str s then s
      else if truthy_str (sender self) then sender self
      else user_name self)"
    by (simp add: get_sender_def or_str_def)
  show "sender (init e1 e2 e3 e4 h p user pw smtp tls kw) = None"
    by (simp add: init_def)
next
  fix msg
  let ?self = "init e1 e2 e3 e4 h p user pw smtp tls kw"
  let ?a = "a\<lparr>arg_sender := None\<rparr>"
  assume "get_message co pf ?self ?a = Inr msg"
  from get_message_headers [OF this] obtain subj where
    "headers msg =
       headers (create_body subj (r_sender (resolve_args ?self ?a))
         (r_receivers (resolve_args ?self ?a)) (r_cc (resolve_args ?self ?a))
         (r_bcc (resolve_args ?self ?a)))"
    by blast
  moreover have "r_sender (resolve_args ?self ?a) = user"
    by (simp add: resolve_args_def get_sender_def init_def)
  ultimately show "map_of (headers msg) ''from'' = Some (HeaderStr user)"
    by (simp add: map_of_headers_create_body)
qed

text \<open>
  The three steps at example senders, and the from-address of a message composed by a
  new sender with a user name and no sender.
\<close>

theorem get_sender_fallback_witness:
  "get_sender example_sender None = Some ''bot@example.com''
   \<and> get_sender (example_sender\<lparr>sender := Some ''me@example.com''\<rparr>) None
        = Some ''me@example.com''
   \<and> get_sender (example_sender\<lparr>sender := Some ''me@example.com''\<rparr>) (Some ''you@example.com'')
        = Some ''you@example.com''
   \<and> map_of (headers
        \<lparr>headers = [(''from'', HeaderStr (Some ''bot@example.com'')),
                    (''subject'', HeaderStr (Some ''Hi''))],
         text_part = None, html_part = None, inline_resources = [], attachments = []\<rparr>)
        ''from'' = Some (HeaderStr (Some ''bot@example.com''))
   \<and> get_message echo_collaborators example_platform example_sender
        (no_args\<lparr>arg_subject := Some ''Hi''\<rparr>)
        = Inr \<lparr>headers = [(''from'', HeaderStr (Some ''bot@example.com'')),
                          (''subject'', HeaderStr (Some ''Hi''))],
               text_part = None, html_part = None, inline_resources = [], attachments = []\<rparr>"
proof -
  let ?msg = "\<lparr>headers = [(''from'', HeaderStr (Some ''bot@example.com'')),
                          (''subject'', HeaderStr (Some ''Hi''))],
               text_part = None, html_part = None, inline_resources = [], attachments = []\<rparr>"
  have run: "get_message echo_collaborators example_platform example_sender
        ((no_args\<lparr>arg_subject := Some ''Hi''\<rparr>)\<lparr>arg_sender := None\<rparr>) = Inr ?msg"
    by (simp add: example_defs compose_defs)
  have args: "(no_args\<lparr>arg_subject := Some ''Hi''\<rparr>)\<lparr>arg_sender := None\<rparr>
      = no_args\<lparr>arg_subject := Some ''Hi''\<rparr>"
    by (simp add: no_args_def)
  note thm1 = get_sender_fallback [of example_sender None Map.empty table_themes Map.empty
      table_themes "''localhost''" 0 "Some ''bot@example.com''" None smtp_ok True "[]"
      echo_collaborators example_platform "no_args\<lparr>arg_subject := Some ''Hi''\<rparr>"]
  note thm2 = get_sender_fallback [of "example_sender\<lparr>sender := Some ''me@example.com''\<rparr>" None]
  note thm3 = get_sender_fallback [of "example_sender\<lparr>sender := Some ''me@example.com''\<rparr>"
      "Some ''you@example.com''"]
  from thm1 have "get_sender example_sender None = Some ''bot@example.com''"
    by (simp add: truthy_str_def example_sender_def init_def)
  moreover from thm2 have "get_sender (example_sender\<lparr>sender := Some ''me@example.com''\<rparr>) None
        = Some ''me@example.com''"
    by (simp add: truthy_str_def)
  moreover from thm3 have
    "get_sender (example_sender\<lparr>sender := Some ''me@example.com''\<rparr>) (Some ''you@example.com'')
        = Some ''you@example.com''"
    by (simp add: truthy_str_def)
  moreover from thm1 run have "map_of (headers ?msg) ''from'' = Some (HeaderStr (Some ''bot@example.com''))"
    unfolding example_sender_def [symmetric] by blast
  moreover from run args have "get_message echo_collaborators example_platform example_sender
        (no_args\<lparr>arg_subject := Some ''Hi''\<rparr>) = Inr ?msg"
    by simp
  ultimately show ?thesis by blast
qed

subsection \<open>Empty strings\<close>

text \<open>
  C9: an empty string given for the subject, the text, the HTML or a template name is
  treated as no argument: the default of the object is used. In particular
  \<open>get_message(subject="")\<close> on a sender without a default subject raises
  \<open>ValueError("Email must have a subject")\<close>.
\<close>

theorem empty_string_is_absent:
  "r_subject (resolve_args self (a\<lparr>arg_subject := Some []\<rparr>)) = subject self
   \<and> r_text (resolve_args self (a\<lparr>arg_text := Some []\<rparr>)) = text self
   \<and> r_html (resolve_args self (a\<lparr>arg_html := Some []\<rparr>)) = html self
   \<and> r_text_template (resolve_args self (a\<lparr>arg_text_template := Some []\<rparr>)) = text_template self
   \<and> r_html_template (resolve_args self (a\<lparr>arg_html_template := Some []\<rparr>)) = html_template self
   \<and> (subject self = None \<longrightarrow>
        get_message co pf self (a\<lparr>arg_subject := Some []\<rparr>)
          = Inl (ValueError ''Email must have a subject''))"
  by (simp add: resolve_args_def get_message_no_subject)

text \<open>
  An empty subject on a sender without a default subject raises the error; on a sender
  with a default subject the default is the subject.
\<close>

theorem empty_string_is_absent_witness:
  "subject example_sender = None
   \<and> get_message echo_collaborators example_platform example_sender
        (no_args\<lparr>arg_text := Some ''Hello'', arg_subject := Some []\<rparr>)
          = Inl (ValueError ''Email must have a subject'')
   \<and> r_subject (resolve_args weekly_sender (no_args\<lparr>arg_subject := Some []\<rparr>))
        = Some ''Weekly report''"
proof -
  have n: "subject example_sender = None"
    by (simp add: example_sender_def init_def)
  have w: "subject weekly_sender = Some ''Weekly report''"
    by (simp add: weekly_sender_def)
  from n w
    empty_string_is_absent [of example_sender "no_args\<lparr>arg_text := Some ''Hello''\<rparr>"
      echo_collaborators example_platform]
    empty_string_is_absent [of weekly_sender no_args]
  show ?thesis by simp
qed

subsection \<open>Jinja parameters\<close>

lemma map_of_dict_update: "map_of (dict_update d e) = map_of d ++ map_of (rev e)"
proof (induction e arbitrary: d)
  case Nil
  show ?case by (simp add: dict_update_def)
next
  case (Cons x e)
  obtain k v where x: "x = (k, v)" by (cases x)
  have "dict_update d (x # e) = dict_update (AList.update k v d) e"
    by (simp add: dict_update_def x)
  then have "map_of (dict_update d (x # e)) = (map_of d)(k \<mapsto> v) ++ map_of (rev e)"
    by (simp only: Cons.IH update_conv')
  also have "\<dots> = map_of d ++ map_of (rev (x # e))"
    by (auto simp: x fun_eq_iff map_add_def split: option.splits)
  finally show ?case .
qed

lemma map_of_rev_distinct: "distinct (map fst e) \<Longrightarrow> map_of (rev e) = map_of e"
  by (rule map_of_inject_set [THEN iffD2]) (simp_all add: rev_map [symmetric])

lemma map_of_get_params:
  "map_of (get_params pf self s) =
     [''node'' \<mapsto> PyStr (node pf), ''user'' \<mapsto> PyStr (getuser pf),
      ''now'' \<mapsto> PyDateTime (now pf), ''sender'' \<mapsto> EmailAddress s]"
  by (simp add: get_params_def fun_eq_iff)

lemma map_of_get_html_params:
  "map_of (get_html_params pf self extra s) =
     (map_of (get_params pf self s))(''error'' \<mapsto> Error ''html-inline'')
       ++ (case extra of None \<Rightarrow> Map.empty | Some e \<Rightarrow> map_of (rev e))"
  by (cases extra) (auto simp: get_html_params_def truthy_dict_def map_of_dict_update Let_def)

lemma map_of_get_text_params:
  "map_of (get_text_params pf self extra s) =
     (map_of (get_params pf self s))(''error'' \<mapsto> Error ''text'')
       ++ (case extra of None \<Rightarrow> Map.empty | Some e \<Rightarrow> map_of (rev e))"
  by (cases extra) (auto simp: get_text_params_def truthy_dict_def map_of_dict_update Let_def)

text \<open>
  C10: \<open>body_params\<close> is applied after the implicit variables. For every key of
  \<open>body_params\<close>, also \<open>node\<close>, \<open>user\<close>, \<open>now\<close>, \<open>sender\<close> and \<open>error\<close>, the HTML and
  the text parameter set hold the caller's value.
\<close>

theorem body_params_override:
  assumes "distinct (map fst e)" and "(k, v) \<in> set e"
  shows "map_of (get_html_params pf self (Some e) s) k = Some v \<and>
         map_of (get_text_params pf self (Some e) s) k = Some v"
proof -
  from assms have "map_of (rev e) k = Some v"
    by (simp add: map_of_rev_distinct)
  then show ?thesis
    by (simp add: map_of_get_html_params map_of_get_text_params map_add_Some_iff)
qed

text \<open>A call that gives its own \<open>error\<close> and \<open>node\<close>.\<close>

theorem body_params_override_witness:
  "map_of (get_html_params example_platform example_sender
      (Some [(''error'', PyStr ''n/a''), (''node'', PyStr ''elsewhere'')])
      (Some ''bot@example.com'')) ''error'' = Some (PyStr ''n/a'')
   \<and> map_of (get_text_params example_platform example_sender
      (Some [(''error'', PyStr ''n/a''), (''node'', PyStr ''elsewhere'')])
      (Some ''bot@example.com'')) ''node'' = Some (PyStr ''elsewhere'')"
  using
    body_params_override [of "[(''error'', PyStr ''n/a''), (''node'', PyStr ''elsewhere'')]"
      "''error''" "PyStr ''n/a''" example_platform example_sender "Some ''bot@example.com''"]
    body_params_override [of "[(''error'', PyStr ''n/a''), (''node'', PyStr ''elsewhere'')]"
      "''node''" "PyStr ''elsewhere''" example_platform example_sender "Some ''bot@example.com''"]
  by simp

text \<open>
  Counterexample to C6 as stated: with \<open>body_params={"error": "n/a"}\<close> the HTML
  parameter set does not carry the HTML-inline marker and the two sets carry the same
  value; both bodies of the composed message show it.
\<close>

theorem error_marker_overridden:
  "map_of (get_html_params example_platform example_sender
      (Some [(''error'', PyStr ''n/a'')]) (Some ''bot@example.com'')) ''error''
     = Some (PyStr ''n/a'')
   \<and> map_of (get_text_params example_platform example_sender
      (Some [(''error'', PyStr ''n/a'')]) (Some ''bot@example.com'')) ''error''
     = Some (PyStr ''n/a'')
   \<and> get_message marker_collaborators example_platform example_sender
        (no_args\<lparr>arg_subject := Some ''Hi'', arg_text := Some ''t'', arg_html := Some ''h'',
                 arg_body_params := Some [(''error'', PyStr ''n/a'')]\<rparr>)
       = Inr \<lparr>headers = [(''from'', HeaderStr (Some ''bot@example.com'')),
                         (''subject'', HeaderStr (Some ''Hi''))],
              text_part = Some ''n/a'', html_part = Some ''n/a'', inline_resources = [],
              attachments = []\<rparr>"
  by (simp add: example_defs compose_defs marker_collaborators_def show_error_def
      get_html_params_def get_text_params_def get_params_def dict_update_def truthy_dict_def)

subsection \<open>The parts of a composed message\<close>

lemma get_message_text_part:
  assumes "get_message co pf self a = Inr msg"
  shows "if r_text (resolve_args self a) \<noteq> None \<or> r_text_template (resolve_args self a) \<noteq> None
         then \<exists>tmpl table_tmpl t.
           get_text_template self (r_text_template (resolve_args self a)) = Inr tmpl \<and>
           get_text_table_template self None = Inr table_tmpl \<and>
           render_text co tmpl table_tmpl (r_text (resolve_args self a)) (arg_body_tables a)
             (get_text_params pf self (arg_body_params a) (r_sender (resolve_args self a)))
               = Inr t \<and>
           text_part msg = Some t
         else text_part msg = None"
proof -
  let ?r = "resolve_args self a"
  from assms obtain subj m1 m2 where
    t: "attach_text co pf self a ?r
          (create_body subj (r_sender ?r) (r_receivers ?r) (r_cc ?r) (r_bcc ?r)) = Inr m1" and
    h: "attach_html co pf self a ?r m1 = Inr m2" and
    f: "attach_files co self a m2 = Inr msg"
    unfolding get_message_Inr by blast
  have keep: "text_part msg = text_part m1"
    using attach_html_frame [OF h] attach_files_frame [OF f] by simp
  show ?thesis
  proof (cases "r_text ?r \<noteq> None \<or> r_text_template ?r \<noteq> None")
    case True
    from attach_text_Inr [OF t True] keep True show ?thesis by auto
  next
    case False
    with t have "m1 = create_body subj (r_sender ?r) (r_receivers ?r) (r_cc ?r) (r_bcc ?r)"
      by (simp add: attach_text_def)
    with keep False show ?thesis by (simp add: content_create_body)
  qed
qed

lemma get_message_html_part:
  assumes "get_message co pf self a = Inr msg"
  shows "if r_html (resolve_args self a) \<noteq> None \<or> r_html_template (resolve_args self a) \<noteq> None
         then \<exists>tmpl table_tmpl h.
           get_html_template self (r_html_template (resolve_args self a)) = Inr tmpl \<and>
           get_html_table_template self None = Inr table_tmpl \<and>
           render_html co tmpl table_tmpl (r_html (resolve_args self a)) (arg_body_images a)
             (arg_body_tables a)
             (get_html_params pf self (arg_body_params a) (r_sender (resolve_args self a)))
               = Inr (h, inline_resources msg) \<and>
           html_part msg = Some h
         else html_part msg = None \<and> inline_resources msg = []"
proof -
  let ?r = "resolve_args self a"
  from assms obtain subj m1 m2 where
    t: "attach_text co pf self a ?r
          (create_body subj (r_sender ?r) (r_receivers ?r) (r_cc ?r) (r_bcc ?r)) = Inr m1" and
    h: "attach_html co pf self a ?r m1 = Inr m2" and
    f: "attach_files co self a m2 = Inr msg"
    unfolding get_message_Inr by blast
  have keep: "html_part msg = html_part m2 \<and> inline_resources msg = inline_resources m2"
    using attach_files_frame [OF f] by simp
  have before: "html_part m1 = None \<and> inline_resources m1 = []"
    using attach_text_frame [OF t] by (simp add: content_create_body)
  show ?thesis
  proof (cases "r_html ?r \<noteq> None \<or> r_html_template ?r \<noteq> None")
    case True
    from attach_html_Inr [OF h True] keep True show ?thesis by auto
  next
    case False
    with h have "m2 = m1" by (simp add: attach_html_def)
    with keep before False show ?thesis by simp
  qed
qed

subsection \<open>Arguments and defaults\<close>

text \<open>
  Counterexample to C5 as stated: the call supplies the subject \<open>""\<close> and the message
  carries the default subject; the call supplies no sender, the object stores no default
  sender, and the message carries the user name as its from-address.
\<close>

theorem empty_subject_and_unset_sender:
  "arg_subject (no_args\<lparr>arg_subject := Some []\<rparr>) = Some []
   \<and> arg_sender (no_args\<lparr>arg_subject := Some []\<rparr>) = None
   \<and> subject weekly_sender = Some ''Weekly report''
   \<and> sender weekly_sender = None
   \<and> get_message echo_collaborators example_platform weekly_sender
        (no_args\<lparr>arg_subject := Some []\<rparr>)
       = Inr \<lparr>headers = [(''from'', HeaderStr (Some ''bot@example.com'')),
                         (''subject'', HeaderStr (Some ''Weekly report''))],
              text_part = None, html_part = None, inline_resources = [], attachments = []\<rparr>"
  by (simp add: weekly_sender_def example_defs compose_defs)

text \<open>
  C5, amended: for each of subject, receivers, cc, bcc, text, html, text_template and
  html_template the composed message uses the argument of the call when it is neither
  \<open>None\<close> nor empty, and the stored default of the object otherwise. For the sender it
  uses the argument when it is neither \<open>None\<close> nor empty, otherwise the stored default
  when that is neither \<open>None\<close> nor empty, otherwise the user name. The resolved subject
  and sender are the subject and from headers; resolved receivers, cc and bcc are the
  to, cc and bcc headers when not empty; the resolved text, HTML and template names are
  what the bodies are rendered from.
\<close>

theorem resolved_fields:
  "r_subject (resolve_args self a)
     = (if truthy_str (arg_subject a) then arg_subject a else subject self)
   \<and> r_sender (resolve_args self a)
     = (if truthy_str (arg_sender a) then arg_sender a
        else if truthy_str (sender self) then sender self else user_name self)
   \<and> r_receivers (resolve_args self a)
     = (if truthy_addr (arg_receivers a) then arg_receivers a else receivers self)
   \<and> r_cc (resolve_args self a) = (if truthy_addr (arg_cc a) then arg_cc a else cc self)
   \<and> r_bcc (resolve_args self a) = (if truthy_addr (arg_bcc a) then arg_bcc a else bcc self)
   \<and> r_text (resolve_args self a) = (if truthy_str (arg_text a) then arg_text a else text self)
   \<and> r_html (resolve_args self a) = (if truthy_str (arg_html a) then arg_html a else html self)
   \<and> r_text_template (resolve_args self a)
     = (if truthy_str (arg_text_template a) then arg_text_template a else text_template self)
   \<and> r_html_template (resolve_args self a)
     = (if truthy_str (arg_html_template a) then arg_html_template a else html_template self)
   \<and> (get_message co pf self a = Inr msg \<longrightarrow>
        map_of (headers msg) ''subject'' = Some (HeaderStr (r_subject (resolve_args self a)))
        \<and> map_of (headers msg) ''from'' = Some (HeaderStr (r_sender (resolve_args self a)))
        \<and> map_of (headers msg) ''to''
            = (if truthy_addr (r_receivers (resolve_args self a))
               then Some (HeaderAddr (the (r_receivers (resolve_args self a)))) else None)
        \<and> map_of (headers msg) ''cc''
            = (if truthy_addr (r_cc (resolve_args self a))
               then Some (HeaderAddr (the (r_cc (resolve_args self a)))) else None)
        \<and> map_of (headers msg) ''bcc''
            = (if truthy_addr (r_bcc (resolve_args self a))
               then Some (HeaderAddr (the (r_bcc (resolve_args self a)))) else None)
        \<and> (if r_text (resolve_args self a) \<noteq> None \<or> r_text_template (resolve_args self a) \<noteq> None
            then \<exists>tmpl table_tmpl t.
              get_text_template self (r_text_template (resolve_args self a)) = Inr tmpl \<and>
              get_text_table_template self None = Inr table_tmpl \<and>
              render_text co tmpl table_tmpl (r_text (resolve_args self a)) (arg_body_tables a)
                (get_text_params pf self (arg_body_params a) (r_sender (resolve_args self a)))
                  = Inr t \<and>
              text_part msg = Some t
            else text_part msg = None)
        \<and> (if r_html (resolve_args self a) \<noteq> None \<or> r_html_template (resolve_args self a) \<noteq> None
            then \<exists>tmpl table_tmpl h.
              get_html_template self (r_html_template (resolve_args self a)) = Inr tmpl \<and>
              get_html_table_template self None = Inr table_tmpl \<and>
              render_html co tmpl table_tmpl (r_html (resolve_args self a)) (arg_body_images a)
                (arg_body_tables a)
                (get_html_params pf self (arg_body_params a) (r_sender (resolve_args self a)))
                  = Inr (h, inline_resources msg) \<and>
              html_part msg = Some h
            else html_part msg = None \<and> inline_resources msg = []))"
proof -
  have fields:
    "r_subject (resolve_args self a)
       = (if truthy_str (arg_subject a) then arg_subject a else subject self)"
    "r_sender (resolve_args self a)
       = (if truthy_str (arg_sender a) then arg_sender a
          else if truthy_str (sender self) then sender self else user_name self)"
    "r_receivers (resolve_args self a)
       = (if truthy_addr (arg_receivers a) then arg_receivers a else receivers self)"
    "r_cc (resolve_args self a) = (if truthy_addr (arg_cc a) then arg_cc a else cc self)"
    "r_bcc (resolve_args self a) = (if truthy_addr (arg_bcc a) then arg_bcc a else bcc self)"
    "r_text (resolve_args self a) = (if truthy_str (arg_text a) then arg_text a else text self)"
    "r_html (resolve_args self a) = (if truthy_str (arg_html a) then arg_html a else html self)"
    "r_text_template (resolve_args self a)
       = (if truthy_str (arg_text_template a) then arg_text_template a else text_template self)"
    "r_html_template (resolve_args self a)
       = (if truthy_str (arg_html_template a) then arg_html_template a else html_template self)"
    by (simp_all add: resolve_args_def get_sender_def get_receivers_def get_cc_def get_bcc_def
        or_str_def or_addr_def)
  have msg: "map_of (headers msg) ''subject'' = Some (HeaderStr (r_subject (resolve_args self a)))
        \<and> map_of (headers msg) ''from'' = Some (HeaderStr (r_sender (resolve_args self a)))
        \<and> map_of (headers msg) ''to''
            = (if truthy_addr (r_receivers (resolve_args self a))
               then Some (HeaderAddr (the (r_receivers (resolve_args self a)))) else None)
        \<and> map_of (headers msg) ''cc''
            = (if truthy_addr (r_cc (resolve_args self a))
               then Some (HeaderAddr (the (r_cc (resolve_args self a)))) else None)
        \<and> map_of (headers msg) ''bcc''
            = (if truthy_addr (r_bcc (resolve_args self a))
               then Some (HeaderAddr (the (r_bcc (resolve_args self a)))) else None)"
    if run: "get_message co pf self a = Inr msg"
  proof -
    from get_message_headers [OF run] obtain subj where
      s: "r_subject (resolve_args self a) = Some subj" and
      h: "headers msg =
            headers (create_body subj (r_sender (resolve_args self a))
              (r_receivers (resolve_args self a)) (r_cc (resolve_args self a))
              (r_bcc (resolve_args self a)))"
      by blast
    show ?thesis
      unfolding h s using map_of_headers_create_body by blast
  qed
  from fields msg get_message_text_part [of co pf self a msg]
    get_message_html_part [of co pf self a msg]
  show ?thesis by blast
qed

text \<open>
  A call on the sender with a default subject that gives its own subject, receivers and
  text: the message carries the arguments, and the user name as from-address.
\<close>

theorem resolved_fields_witness:
  "r_subject (resolve_args weekly_sender
      (no_args\<lparr>arg_subject := Some ''Hi'', arg_receivers := Some (AddrList [''you@example.com'']),
               arg_text := Some ''Hello''\<rparr>)) = Some ''Hi''
   \<and> r_subject (resolve_args weekly_sender no_args) = Some ''Weekly report''
   \<and> map_of (headers
        \<lparr>headers = [(''from'', HeaderStr (Some ''bot@example.com'')),
                    (''subject'', HeaderStr (Some ''Hi'')),
                    (''to'', HeaderAddr (AddrList [''you@example.com'']))],
         text_part = Some ''Hello'', html_part = None, inline_resources = [],
         attachments = []\<rparr>) ''subject'' = Some (HeaderStr (Some ''Hi''))
   \<and> get_message echo_collaborators example_platform weekly_sender
        (no_args\<lparr>arg_subject := Some ''Hi'', arg_receivers := Some (AddrList [''you@example.com'']),
                 arg_text := Some ''Hello''\<rparr>)
       = Inr \<lparr>headers = [(''from'', HeaderStr (Some ''bot@example.com'')),
                         (''subject'', HeaderStr (Some ''Hi'')),
                         (''to'', HeaderAddr (AddrList [''you@example.com'']))],
              text_part = Some ''Hello'', html_part = None, inline_resources = [],
              attachments = []\<rparr>"
proof -
  let ?a = "no_args\<lparr>arg_subject := Some ''Hi'',
               arg_receivers := Some (AddrList [''you@example.com'']),
               arg_text := Some ''Hello''\<rparr>"
  let ?msg = "\<lparr>headers = [(''from'', HeaderStr (Some ''bot@example.com'')),
                         (''subject'', HeaderStr (Some ''Hi'')),
                         (''to'', HeaderAddr (AddrList [''you@example.com'']))],
              text_part = Some ''Hello'', html_part = None, inline_resources = [],
              attachments = []\<rparr>"
  have run: "get_message echo_collaborators example_platform weekly_sender ?a = Inr ?msg"
    by (simp add: weekly_sender_def example_defs compose_defs)
  note call = resolved_fields [of weekly_sender ?a echo_collaborators example_platform ?msg]
  note dflt = resolved_fields [of weekly_sender no_args]
  from call have 1: "r_subject (resolve_args weekly_sender ?a) = Some ''Hi''"
    by (simp add: truthy_str_def)
  from dflt have 2: "r_subject (resolve_args weekly_sender no_args) = Some ''Weekly report''"
    by (simp add: truthy_str_def no_args_def weekly_sender_def)
  from call run 1 have 3: "map_of (headers ?msg) ''subject'' = Some (HeaderStr (Some ''Hi''))"
    by metis
  from 1 2 3 run show ?thesis by blast
qed

subsection \<open>Text and HTML together\<close>

text \<open>
  C3: when a compose call has a text part (line 310: a text or a text template after
  the defaults) and an HTML part (line 322), the composed message holds both in a
  \<open>multipart/alternative\<close>, the text part first and the HTML part (with its inline
  resources, if any) second. With attachments the alternative is the first child of the
  \<open>multipart/mixed\<close> root.
\<close>

theorem text_and_html_alternative:
  assumes "get_message co pf self a = Inr msg"
    and "r_text (resolve_args self a) \<noteq> None \<or> r_text_template (resolve_args self a) \<noteq> None"
    and "r_html (resolve_args self a) \<noteq> None \<or> r_html_template (resolve_args self a) \<noteq> None"
  shows "\<exists>t h. text_part msg = Some t \<and> html_part msg = Some h \<and>
           body_part msg = Some (Alternative [TextPart t, html_node h (inline_resources msg)]) \<and>
           mime_tree msg =
             (if attachments msg = []
              then Some (Alternative [TextPart t, html_node h (inline_resources msg)])
              else Some (Mixed (Alternative [TextPart t, html_node h (inline_resources msg)]
                                 # map AttachmentPart (attachments msg))))"
proof -
  from get_message_text_part [OF assms(1)] assms(2)
  obtain t where t: "text_part msg = Some t" by auto
  from get_message_html_part [OF assms(1)] assms(3)
  obtain h where h: "html_part msg = Some h" by auto
  have "body_part msg = Some (Alternative [TextPart t, html_node h (inline_resources msg)])"
    by (simp add: body_part_def t h)
  with t h show ?thesis by (simp add: mime_tree_def)
qed

text \<open>A call with a text, an HTML body and one attachment.\<close>

theorem text_and_html_alternative_witness:
  "get_message echo_collaborators example_platform example_sender
     (no_args\<lparr>arg_subject := Some ''Hi'', arg_text := Some ''Hello'',
              arg_html := Some ''<p>Hello</p>'',
              arg_attachments := Some [(''a.txt'', AttachText ''x'')]\<rparr>)
    = Inr \<lparr>headers = [(''from'', HeaderStr (Some ''bot@example.com'')),
                      (''subject'', HeaderStr (Some ''Hi''))],
           text_part = Some ''Hello'', html_part = Some ''<p>Hello</p>'',
           inline_resources = [],
           attachments = [Attachment ''a.txt'' ''application/octet-stream'' [] Base64]\<rparr>
   \<and> mime_tree
        \<lparr>headers = [(''from'', HeaderStr (Some ''bot@example.com'')),
                    (''subject'', HeaderStr (Some ''Hi''))],
         text_part = Some ''Hello'', html_part = Some ''<p>Hello</p>'',
         inline_resources = [],
         attachments = [Attachment ''a.txt'' ''application/octet-stream'' [] Base64]\<rparr>
    = Some (Mixed [Alternative [TextPart ''Hello'', HtmlPart ''<p>Hello</p>''],
                   AttachmentPart (Attachment ''a.txt'' ''application/octet-stream'' [] Base64)])"
proof -
  let ?a = "no_args\<lparr>arg_subject := Some ''Hi'', arg_text := Some ''Hello'',
              arg_html := Some ''<p>Hello</p>'',
              arg_attachments := Some [(''a.txt'', AttachText ''x'')]\<rparr>"
  let ?msg = "\<lparr>headers = [(''from'', HeaderStr (Some ''bot@example.com'')),
                      (''subject'', HeaderStr (Some ''Hi''))],
           text_part = Some ''Hello'', html_part = Some ''<p>Hello</p>'',
           inline_resources = [],
           attachments = [Attachment ''a.txt'' ''application/octet-stream'' [] Base64]\<rparr>"
  have run: "get_message echo_collaborators example_platform example_sender ?a = Inr ?msg"
    by (simp add: example_defs compose_defs)
  have t: "r_text (resolve_args example_sender ?a) \<noteq> None
           \<or> r_text_template (resolve_args example_sender ?a) \<noteq> None"
    by (simp add: resolve_args_def)
  have h: "r_html (resolve_args example_sender ?a) \<noteq> None
           \<or> r_html_template (resolve_args example_sender ?a) \<noteq> None"
    by (simp add: resolve_args_def)
  from text_and_html_alternative [OF run t h]
  have "mime_tree ?msg
    = Some (Mixed [Alternative [TextPart ''Hello'', HtmlPart ''<p>Hello</p>''],
                   AttachmentPart (Attachment ''a.txt'' ''application/octet-stream'' [] Base64)])"
    by (auto simp: html_node_def)
  with run show ?thesis by blast
qed

subsection \<open>Transport\<close>

lemma set_smtp_do: "set (snd (smtp_do self c tr)) = insert c (set tr)"
  by (simp add: smtp_do_def)

lemma set_then_do:
  assumes "set (snd r) \<subseteq> A" and "\<And>tr. set tr \<subseteq> A \<Longrightarrow> set (snd (f tr)) \<subseteq> A"
  shows "set (snd (then_do r f)) \<subseteq> A"
proof (cases r)
  case (Pair res tr)
  with assms show ?thesis by (cases res) (simp_all add: then_do_def)
qed

lemma set_connect:
  assumes "set tr \<subseteq> A"
    and "SMTP_init (host self) (port self) (kws_smtp self) \<in> A"
    and "StartTLS \<in> A" and "Login (user_name self) (password self) \<in> A"
  shows "set (snd (connect self tr)) \<subseteq> A"
  unfolding connect_def
  using assms by (intro set_then_do) (simp_all add: set_smtp_do)

lemma set_send_message:
  "set (snd (send_message self msg [])) \<subseteq>
     {SMTP_init (host self) (port self) (kws_smtp self), StartTLS,
      Login (user_name self) (password self), SendMessage msg, Quit}"
  unfolding send_message_def
  by (intro set_then_do set_connect) (simp_all add: set_smtp_do)

text \<open>
  C4: in \<open>send\<close> every transport call comes after \<open>get_message\<close> has returned a
  message. When \<open>get_message\<close> raises, \<open>send\<close> raises the same error and no transport
  call is made; a trace with a transport call means that composition succeeded; and a
  message handed to the transport is the message \<open>get_message\<close> returned.
\<close>

theorem send_composes_first:
  "(get_message co pf self a = Inl e \<longrightarrow> send co pf self a = (Inl e, []))
   \<and> (snd (send co pf self a) \<noteq> [] \<longrightarrow> (\<exists>msg. get_message co pf self a = Inr msg))
   \<and> (SendMessage m \<in> set (snd (send co pf self a)) \<longrightarrow> get_message co pf self a = Inr m)"
proof (intro conjI impI)
  assume "get_message co pf self a = Inl e"
  then show "send co pf self a = (Inl e, [])" by (simp add: send_def)
next
  assume "snd (send co pf self a) \<noteq> []"
  then show "\<exists>msg. get_message co pf self a = Inr msg"
    by (cases "get_message co pf self a") (simp_all add: send_def)
next
  assume m: "SendMessage m \<in> set (snd (send co pf self a))"
  show "get_message co pf self a = Inr m"
  proof (cases "get_message co pf self a")
    case (Inl e)
    with m show ?thesis by (simp add: send_def)
  next
    case (Inr msg)
    then have "snd (send co pf self a) = snd (send_message self msg [])"
      by (simp add: send_def split: prod.splits sum.splits)
    with m set_send_message [of self msg] have "m = msg" by auto
    with Inr show ?thesis by simp
  qed
qed

text \<open>
  A call without a subject makes no transport call; a call with a subject and a text
  connects, logs in and sends the composed message.
\<close>

theorem send_composes_first_witness:
  "get_message echo_collaborators example_platform example_sender
     (no_args\<lparr>arg_text := Some ''Hello''\<rparr>) = Inl (ValueError ''Email must have a subject'')
   \<and> send echo_collaborators example_platform example_sender
     (no_args\<lparr>arg_text := Some ''Hello''\<rparr>) = (Inl (ValueError ''Email must have a subject''), [])
   \<and> send echo_collaborators example_platform example_sender
     (no_args\<lparr>arg_subject := Some ''Hi'', arg_text := Some ''Hello''\<rparr>)
     = (Inr \<lparr>headers = [(''from'', HeaderStr (Some ''bot@example.com'')),
                        (''subject'', HeaderStr (Some ''Hi''))],
             text_part = Some ''Hello'', html_part = None, inline_resources = [],
             attachments = []\<rparr>,
        [SMTP_init ''localhost'' 0 [], StartTLS, Login (Some ''bot@example.com'') None,
         SendMessage
           \<lparr>headers = [(''from'', HeaderStr (Some ''bot@example.com'')),
                       (''subject'', HeaderStr (Some ''Hi''))],
            text_part = Some ''Hello'', html_part = None, inline_resources = [],
            attachments = []\<rparr>,
         Quit])
   \<and> get_message echo_collaborators example_platform example_sender
     (no_args\<lparr>arg_subject := Some ''Hi'', arg_text := Some ''Hello''\<rparr>)
     = Inr \<lparr>headers = [(''from'', HeaderStr (Some ''bot@example.com'')),
                        (''subject'', HeaderStr (Some ''Hi''))],
             text_part = Some ''Hello'', html_part = None, inline_resources = [],
             attachments = []\<rparr>"
proof -
  let ?msg = "\<lparr>headers = [(''from'', HeaderStr (Some ''bot@example.com'')),
                        (''subject'', HeaderStr (Some ''Hi''))],
             text_part = Some ''Hello'', html_part = None, inline_resources = [],
             attachments = []\<rparr>"
  have fails: "get_message echo_collaborators example_platform example_sender
     (no_args\<lparr>arg_text := Some ''Hello''\<rparr>) = Inl (ValueError ''Email must have a subject'')"
    by (simp add: example_defs compose_defs)
  have sends: "send echo_collaborators example_platform example_sender
     (no_args\<lparr>arg_subject := Some ''Hi'', arg_text := Some ''Hello''\<rparr>)
     = (Inr ?msg,
        [SMTP_init ''localhost'' 0 [], StartTLS, Login (Some ''bot@example.com'') None,
         SendMessage ?msg, Quit])"
    by (simp add: send_def send_message_def connect_def then_do_def smtp_do_def
        example_defs compose_defs)
  from fails
    send_composes_first [of echo_collaborators example_platform example_sender
      "no_args\<lparr>arg_text := Some ''Hello''\<rparr>" "ValueError ''Email must have a subject''"]
  have 1: "send echo_collaborators example_platform example_sender
     (no_args\<lparr>arg_text := Some ''Hello''\<rparr>) = (Inl (ValueError ''Email must have a subject''), [])"
    by blast
  from sends
    send_composes_first [of echo_collaborators example_platform example_sender
      "no_args\<lparr>arg_subject := Some ''Hi'', arg_text := Some ''Hello''\<rparr>" _ ?msg]
  have 2: "get_message echo_collaborators example_platform example_sender
     (no_args\<lparr>arg_subject := Some ''Hi'', arg_text := Some ''Hello''\<rparr>) = Inr ?msg"
    by simp
  from fails 1 sends 2 show ?thesis by blast
qed

subsection \<open>Group spans\<close>

text \<open>
  Rows \<open>m..<n\<close>: the spans of the rows that start a group, and the rows before the first
  of them, add up to \<open>n - m\<close>.
\<close>

lemma spans_from:
  "m \<le> n \<Longrightarrow>
   (\<Sum>i\<leftarrow>[m..<n]. if P i then Suc (length (takeWhile (\<lambda>j. \<not> P j) [Suc i..<n])) else 0)
     + length (takeWhile (\<lambda>j. \<not> P j) [m..<n]) = n - m"
proof (induction rule: inc_induct)
  case base
  show ?case by simp
next
  case (step k)
  from step.hyps have upt: "[k..<n] = k # [Suc k..<n]"
    by (simp add: upt_conv_Cons)
  from step.IH step.hyps show ?case
    unfolding upt by (cases "P k") simp_all
qed

lemma starts_group_first: "starts_group t k 0"
  by (cases k) simp_all

lemma sum_count_span:
  "(\<Sum>i\<leftarrow>[0..<length (rows t)]. count_span t k i) = length (rows t)"
proof (cases "rows t = []")
  case True
  then show ?thesis by simp
next
  case False
  then have "[0..<length (rows t)] = 0 # [Suc 0..<length (rows t)]"
    by (simp add: upt_conv_Cons)
  then have "takeWhile (\<lambda>j. \<not> starts_group t k j) [0..<length (rows t)] = []"
    by (simp add: starts_group_first)
  with spans_from [of 0 "length (rows t)" "starts_group t k"]
  show ?thesis by (simp add: count_span_def cong: if_cong)
qed

text \<open>
  C2: for every table and every grouping column \<open>k\<close> of it, the span lengths of the rows
  that \<open>get_span\<close> marks as group starts add up to the number of rows.
\<close>

theorem span_lengths_sum_to_row_count:
  assumes "k < length (grouping t)"
  shows "(\<Sum>i\<leftarrow>filter (\<lambda>i. is_group_start (get_span t i k)) [0..<length (rows t)].
            span_length (get_span t i k)) = length (rows t)"
proof -
  have "(\<Sum>i\<leftarrow>filter (\<lambda>i. is_group_start (get_span t i k)) [0..<length (rows t)].
            span_length (get_span t i k))
        = (\<Sum>i\<leftarrow>[0..<length (rows t)].
            if is_group_start (get_span t i k) then span_length (get_span t i k) else 0)"
    by (simp add: sum_list_map_filter')
  also have "\<dots> = (\<Sum>i\<leftarrow>[0..<length (rows t)]. count_span t k i)"
    by (rule arg_cong [where f = sum_list]) (simp add: get_span_def count_span_def)
  also have "\<dots> = length (rows t)"
    by (rule sum_count_span)
  finally show ?thesis .
qed

text \<open>
  The scenario of the specification: departments A, A, B grouped by \<open>dept\<close> give the
  spans 2, 0 and 1, and the spans of the two group starts add up to the three rows.
\<close>

theorem span_lengths_sum_to_row_count_witness:
  "0 < length (grouping example_table)
   \<and> map (\<lambda>i. get_span example_table i 0) [0, 1, 2]
       = [\<lparr>is_group_start = True, span_length = 2\<rparr>,
          \<lparr>is_group_start = False, span_length = 0\<rparr>,
          \<lparr>is_group_start = True, span_length = 1\<rparr>]
   \<and> (\<Sum>i\<leftarrow>filter (\<lambda>i. is_group_start (get_span example_table i 0))
              [0..<length (rows example_table)].
          span_length (get_span example_table i 0)) = 3"
proof -
  have g: "0 < length (grouping example_table)"
    by (simp add: example_table_def)
  have n: "length (rows example_table) = 3"
    by (simp add: example_table_def)
  have d: "\<not> differs example_table 0 (Suc 0)" "differs example_table 0 2"
    by (simp_all add: differs_def example_table_def cell_at_def)
  have s: "starts_group example_table 0 0" "\<not> starts_group example_table 0 (Suc 0)"
    "starts_group example_table 0 2"
    using d by (simp_all add: example_table_def)
  have u: "[Suc 0..<3] = [Suc 0, 2]" "[2..<3] = [2]" "[3..<3] = []"
    by (simp_all add: upt_conv_Cons)
  have spans: "map (\<lambda>i. get_span example_table i 0) [0, 1, 2]
       = [\<lparr>is_group_start = True, span_length = 2\<rparr>,
          \<lparr>is_group_start = False, span_length = 0\<rparr>,
          \<lparr>is_group_start = True, span_length = 1\<rparr>]"
    using s by (simp add: get_span_def count_span_def n u)
  from span_lengths_sum_to_row_count [OF g] n g spans show ?thesis by simp
qed

subsection \<open>Methods that only read\<close>

lemma reads_only_returns: "reads_only (returns x)"
  by (simp add: reads_only_def returns_def)

lemma reads_only_raises: "reads_only (raises e)"
  by (simp add: reads_only_def raises_def)

lemma reads_only_from_result: "reads_only (from_result r)"
  by (simp add: reads_only_def from_result_def)

lemma reads_only_attribute: "reads_only (attribute f)"
  by (simp add: reads_only_def attribute_def)

lemma reads_only_and_then:
  assumes "reads_only m" and "\<And>x. reads_only (f x)"
  shows "reads_only (and_then m f)"
  unfolding reads_only_def
proof
  fix self
  from assms(1) have m: "snd (m self) = self" by (simp add: reads_only_def)
  show "snd (and_then m f self) = self"
  proof (cases "m self")
    case (Pair res self')
    with m have "self' = self" by simp
    with Pair assms(2) show ?thesis
      by (cases res) (simp_all add: and_then_def reads_only_def)
  qed
qed

lemma reads_only_if:
  "reads_only m \<Longrightarrow> reads_only n \<Longrightarrow> reads_only (if c then m else n)"
  by simp

lemma reads_only_case_option:
  "reads_only m \<Longrightarrow> (\<And>x. reads_only (f x)) \<Longrightarrow> reads_only (case v of None \<Rightarrow> m | Some x \<Rightarrow> f x)"
  by (cases v) simp_all

lemmas reads_only_intros =
  reads_only_returns reads_only_raises reads_only_from_result reads_only_attribute
  reads_only_and_then reads_only_if reads_only_case_option

lemma reads_only_or_attribute: "reads_only (or_attribute v f)"
  unfolding or_attribute_def by (intro reads_only_intros)

lemma reads_only_or_addr_attribute: "reads_only (or_addr_attribute v f)"
  unfolding or_addr_attribute_def by (intro reads_only_intros)

lemma reads_only_get_sender: "reads_only (get_sender_method v)"
  unfolding get_sender_method_def by (intro reads_only_intros reads_only_or_attribute)

lemma reads_only_get_addresses:
  "reads_only (get_receivers_method v)" "reads_only (get_cc_method v)"
  "reads_only (get_bcc_method v)"
  unfolding get_receivers_method_def get_cc_method_def get_bcc_method_def
  by (rule reads_only_or_addr_attribute)+

lemma reads_only_create_body: "reads_only (create_body_method subj s rcv c b)"
  unfolding create_body_method_def by (rule reads_only_returns)

lemma reads_only_get_params: "reads_only (get_params_method pf s)"
  unfolding get_params_method_def by (rule reads_only_returns)

lemma reads_only_get_html_params: "reads_only (get_html_params_method pf extra s)"
  unfolding get_html_params_method_def Let_def
  by (intro reads_only_intros reads_only_get_params)

lemma reads_only_get_text_params: "reads_only (get_text_params_method pf extra s)"
  unfolding get_text_params_method_def Let_def
  by (intro reads_only_intros reads_only_get_params)

lemma reads_only_templates:
  "reads_only (get_html_template_method l)" "reads_only (get_text_template_method l)"
  "reads_only (get_html_table_template_method l)"
  "reads_only (get_text_table_template_method l)"
  unfolding get_html_template_method_def get_text_template_method_def
    get_html_table_template_method_def get_text_table_template_method_def
  by (intro reads_only_intros)+

lemma reads_only_get_message: "reads_only (get_message_method co pf a)"
  unfolding get_message_method_def
  by (intro reads_only_intros reads_only_or_attribute reads_only_get_sender
      reads_only_get_addresses reads_only_create_body reads_only_get_html_params
      reads_only_get_text_params reads_only_templates)

subsection \<open>The result of the method\<close>

lemma run_or_attribute: "or_attribute v f self = (Inr (or_str v (f self)), self)"
  by (simp add: or_attribute_def or_str_def returns_def attribute_def)

lemma run_or_addr_attribute: "or_addr_attribute v f self = (Inr (or_addr v (f self)), self)"
  by (simp add: or_addr_attribute_def or_addr_def returns_def attribute_def)

lemma run_get_sender: "get_sender_method v self = (Inr (get_sender self v), self)"
  by (simp add: get_sender_method_def get_sender_def and_then_def run_or_attribute
      returns_def attribute_def or_str_def)

lemma run_get_addresses:
  "get_receivers_method v self = (Inr (get_receivers self v), self)"
  "get_cc_method v self = (Inr (get_cc self v), self)"
  "get_bcc_method v self = (Inr (get_bcc self v), self)"
  by (simp_all add: get_receivers_method_def get_cc_method_def get_bcc_method_def
      get_receivers_def get_cc_def get_bcc_def run_or_addr_attribute)

lemma run_get_params:
  "get_html_params_method pf extra s self = (Inr (get_html_params pf self extra s), self)"
  "get_text_params_method pf extra s self = (Inr (get_text_params pf self extra s), self)"
  by (simp_all add: get_html_params_method_def get_text_params_method_def
      get_html_params_def get_text_params_def get_params_method_def get_params_def
      and_then_def returns_def Let_def)

lemma run_templates:
  "get_html_template_method l self = (get_html_template self l, self)"
  "get_text_template_method l self = (get_text_template self l, self)"
  "get_html_table_template_method l self = (get_html_table_template self l, self)"
  "get_text_table_template_method l self = (get_text_table_template self l, self)"
  by (simp_all add: get_html_template_method_def get_text_template_method_def
      get_html_table_template_method_def get_text_table_template_method_def
      get_html_template_def get_text_template_def get_html_table_template_def
      get_text_table_template_def and_then_def returns_def attribute_def from_result_def
      Let_def split: option.splits)

lemma and_then_Inr: "m self = (Inr x, self') \<Longrightarrow> and_then m f self = f x self'"
  by (simp add: and_then_def)

lemma and_then_result:
  "m self = (r, self) \<Longrightarrow>
   and_then m f self = (case r of Inl e \<Rightarrow> (Inl e, self) | Inr x \<Rightarrow> f x self)"
  by (cases r) (simp_all add: and_then_def)

lemma run_get_message:
  "get_message_method co pf a self = (get_message co pf self a, self)"
proof -
  let ?r = "resolve_args self a"
  have text_step: "and_then
             (if r_text ?r \<noteq> None \<or> r_text_template ?r \<noteq> None
              then and_then (get_text_template_method (r_text_template ?r)) (\<lambda>tmpl.
                   and_then (get_text_table_template_method None) (\<lambda>table_tmpl.
                   and_then (get_text_params_method pf (arg_body_params a) (r_sender ?r)) (\<lambda>ps.
                     from_result
                       (TextBody_attach co tmpl table_tmpl msg (r_text ?r) (arg_body_tables a) ps))))
              else returns msg) f self
      = (case attach_text co pf self a ?r msg of Inl e \<Rightarrow> (Inl e, self) | Inr m \<Rightarrow> f m self)"
    for msg and f :: "EmailMessage \<Rightarrow> EmailMessage operation"
    by (rule and_then_result)
       (simp add: attach_text_def and_then_result [OF run_templates(2)]
          and_then_result [OF run_templates(4)] and_then_Inr [OF run_get_params(2)]
          from_result_def returns_def bind_err_def split: sum.splits)
  have html_step: "and_then
             (if r_html ?r \<noteq> None \<or> r_html_template ?r \<noteq> None
              then and_then (get_html_template_method (r_html_template ?r)) (\<lambda>tmpl.
                   and_then (get_html_table_template_method None) (\<lambda>table_tmpl.
                   and_then (get_html_params_method pf (arg_body_params a) (r_sender ?r)) (\<lambda>ps.
                     from_result
                       (HTMLBody_attach co tmpl table_tmpl msg (r_html ?r) (arg_body_images a)
                          (arg_body_tables a) ps))))
              else returns msg) f self
      = (case attach_html co pf self a ?r msg of Inl e \<Rightarrow> (Inl e, self) | Inr m \<Rightarrow> f m self)"
    for msg and f :: "EmailMessage \<Rightarrow> EmailMessage operation"
    by (rule and_then_result)
       (simp add: attach_html_def and_then_result [OF run_templates(1)]
          and_then_result [OF run_templates(3)] and_then_Inr [OF run_get_params(1)]
          from_result_def returns_def bind_err_def split: sum.splits)
  have files_step: "(case arg_attachments a of
               None \<Rightarrow> returns msg
             | Some atts \<Rightarrow>
                 if atts \<noteq> []
                 then and_then (attribute attachment_encoding) (\<lambda>enc.
                        from_result (Attachments_attach co atts enc msg))
                 else returns msg) self
      = (attach_files co self a msg, self)" for msg
    by (simp add: attach_files_def and_then_def attribute_def from_result_def returns_def
        split: option.splits)
  have resolved:
    "or_str (arg_subject a) (subject self) = r_subject ?r"
    "get_sender self (arg_sender a) = r_sender ?r"
    "get_receivers self (arg_receivers a) = r_receivers ?r"
    "get_cc self (arg_cc a) = r_cc ?r"
    "get_bcc self (arg_bcc a) = r_bcc ?r"
    "or_str (arg_html a) (html self) = r_html ?r"
    "or_str (arg_text a) (text self) = r_text ?r"
    "or_str (arg_html_template a) (html_template self) = r_html_template ?r"
    "or_str (arg_text_template a) (text_template self) = r_text_template ?r"
    by (simp_all add: resolve_args_def)
  note steps = and_then_Inr [OF run_or_attribute] and_then_Inr [OF run_get_sender]
    and_then_Inr [OF run_get_addresses(1)] and_then_Inr [OF run_get_addresses(2)]
    and_then_Inr [OF run_get_addresses(3)] resolved
  show ?thesis
  proof (cases "r_subject ?r")
    case None
    then show ?thesis
      unfolding get_message_method_def
      by (simp only: steps option.case) (simp add: raises_def get_message_no_subject)
  next
    case (Some subj)
    have "get_message_method co pf a self =
      (case attach_text co pf self a ?r
              (create_body subj (r_sender ?r) (r_receivers ?r) (r_cc ?r) (r_bcc ?r)) of
         Inl e \<Rightarrow> (Inl e, self)
       | Inr m1 \<Rightarrow>
           (case attach_html co pf self a ?r m1 of
              Inl e \<Rightarrow> (Inl e, self)
            | Inr m2 \<Rightarrow> (attach_files co self a m2, self)))"
      unfolding get_message_method_def
      by (simp only: steps Some option.case)
         (simp only: create_body_method_def and_then_Inr [OF returns_def] text_step html_step
            files_step)
    also have "\<dots> = (get_message co pf self a, self)"
      by (simp add: get_message_def Let_def Some bind_err_def split: sum.splits)
    finally show ?thesis .
  qed
qed

subsection \<open>The object after a call\<close>

text \<open>
  C7: a call of \<open>get_message\<close> assigns to no attribute of the object it is called on.
  Whatever the arguments and the defaults, and whether the call returns or raises, the
  object after the call is the object before it, with every attribute as it was.
\<close>

theorem get_message_keeps_sender:
  "snd (get_message_method co pf a self) = self"
  using reads_only_get_message [of co pf a] by (simp add: reads_only_def)

text \<open>
  A call that overrides the default subject gives the message the subject of the call
  and leaves the default of the sender as it was. \<open>set_template_paths\<close>, in contrast,
  changes the object.
\<close>

theorem get_message_keeps_sender_witness:
  "snd (get_message_method echo_collaborators example_platform
          (no_args\<lparr>arg_subject := Some ''Hi''\<rparr>) weekly_sender) = weekly_sender
   \<and> fst (get_message_method echo_collaborators example_platform
          (no_args\<lparr>arg_subject := Some ''Hi''\<rparr>) weekly_sender)
       = Inr \<lparr>headers = [(''from'', HeaderStr (Some ''bot@example.com'')),
                         (''subject'', HeaderStr (Some ''Hi''))],
              text_part = None, html_part = None, inline_resources = [], attachments = []\<rparr>
   \<and> subject weekly_sender = Some ''Weekly report''
   \<and> templates_html weekly_sender ''page.html'' = None
   \<and> templates_html (snd (set_template_paths (\<lambda>p. [''page.html'' \<mapsto> p])
          (Some ''dir'') None None None weekly_sender)) ''page.html'' = Some ''dir''"
proof -
  have run: "get_message echo_collaborators example_platform weekly_sender
      (no_args\<lparr>arg_subject := Some ''Hi''\<rparr>)
    = Inr \<lparr>headers = [(''from'', HeaderStr (Some ''bot@example.com'')),
                       (''subject'', HeaderStr (Some ''Hi''))],
            text_part = None, html_part = None, inline_resources = [], attachments = []\<rparr>"
    by (simp add: weekly_sender_def example_defs compose_defs)
  have d: "subject weekly_sender = Some ''Weekly report''"
    and t: "templates_html weekly_sender ''page.html'' = None"
    by (simp_all add: weekly_sender_def example_sender_def init_def)
  have w: "templates_html (snd (set_template_paths (\<lambda>p. [''page.html'' \<mapsto> p])
          (Some ''dir'') None None None weekly_sender)) ''page.html'' = Some ''dir''"
    by (simp add: set_template_paths_def and_then_def assign_def returns_def)
  from get_message_keeps_sender [of echo_collaborators example_platform
      "no_args\<lparr>arg_subject := Some ''Hi''\<rparr>" weekly_sender]
    run d t w
  show ?thesis by (simp add: run_get_message)
qed

subsection \<open>The parameters handed to rendering\<close>

lemma attach_text_render:
  assumes "\<And>tmpl table_tmpl src tables.
      render_text co' tmpl table_tmpl src tables
        (get_text_params pf self (arg_body_params a) (r_sender r))
      = render_text co tmpl table_tmpl src tables
        (get_text_params pf self (arg_body_params a) (r_sender r))"
  shows "attach_text co' pf self a r msg = attach_text co pf self a r msg"
  by (simp add: attach_text_def TextBody_attach_def assms)

lemma attach_html_render:
  assumes "\<And>tmpl table_tmpl src images tables.
      render_html co' tmpl table_tmpl src images tables
        (get_html_params pf self (arg_body_params a) (r_sender r))
      = render_html co tmpl table_tmpl src images tables
        (get_html_params pf self (arg_body_params a) (r_sender r))"
  shows "attach_html co' pf self a r msg = attach_html co pf self a r msg"
  by (simp add: attach_html_def HTMLBody_attach_def assms)

lemma attach_files_resolve:
  "resolve_attachments co' = resolve_attachments co
    \<Longrightarrow> attach_files co' self a msg = attach_files co self a msg"
  by (simp add: attach_files_def Attachments_attach_def split: option.splits)

text \<open>
  C6, amended: a compose call renders its text body with the text parameter set and its
  HTML body with the HTML parameter set, and hands rendering no other parameters. Both
  sets always hold \<open>node\<close>, \<open>user\<close>, \<open>now\<close>, \<open>sender\<close> and \<open>error\<close>. Each of these keys
  that is not a key of \<open>body_params\<close> holds its implicit value: the host, the user, the
  time, the sender address, and the error marker in its HTML-inline form in the HTML set
  and in its text form in the text set. A key of \<open>body_params\<close> holds the caller's value.
\<close>

theorem implicit_params:
  fixes co co' :: collaborators and pf :: platform and self :: EmailSender
    and a :: message_args
  defines "snd_addr \<equiv> r_sender (resolve_args self a)"
  defines "html_params \<equiv> get_html_params pf self (arg_body_params a) snd_addr"
    and "text_params \<equiv> get_text_params pf self (arg_body_params a) snd_addr"
  shows
  "{''node'', ''user'', ''now'', ''sender'', ''error''} \<subseteq> dom (map_of html_params)
   \<and> {''node'', ''user'', ''now'', ''sender'', ''error''} \<subseteq> dom (map_of text_params)
   \<and> ((case arg_body_params a of None \<Rightarrow> True | Some e \<Rightarrow> k \<notin> fst ` set e) \<longrightarrow>
        map_of html_params k =
          [''node'' \<mapsto> PyStr (node pf), ''user'' \<mapsto> PyStr (getuser pf),
           ''now'' \<mapsto> PyDateTime (now pf), ''sender'' \<mapsto> EmailAddress snd_addr,
           ''error'' \<mapsto> Error ''html-inline''] k
        \<and> map_of text_params k =
          [''node'' \<mapsto> PyStr (node pf), ''user'' \<mapsto> PyStr (getuser pf),
           ''now'' \<mapsto> PyDateTime (now pf), ''sender'' \<mapsto> EmailAddress snd_addr,
           ''error'' \<mapsto> Error ''text''] k)
   \<and> (arg_body_params a = Some e \<and> distinct (map fst e) \<and> (k', v) \<in> set e \<longrightarrow>
        map_of html_params k' = Some v \<and> map_of text_params k' = Some v)
   \<and> (get_message co pf self a = Inr msg \<longrightarrow>
        (r_text (resolve_args self a) \<noteq> None \<or> r_text_template (resolve_args self a) \<noteq> None
          \<longrightarrow> (\<exists>tmpl table_tmpl t.
                render_text co tmpl table_tmpl (r_text (resolve_args self a))
                  (arg_body_tables a) text_params = Inr t
                \<and> text_part msg = Some t))
        \<and> (r_html (resolve_args self a) \<noteq> None \<or> r_html_template (resolve_args self a) \<noteq> None
          \<longrightarrow> (\<exists>tmpl table_tmpl h.
                render_html co tmpl table_tmpl (r_html (resolve_args self a))
                  (arg_body_images a) (arg_body_tables a) html_params
                    = Inr (h, inline_resources msg)
                \<and> html_part msg = Some h)))
   \<and> ((\<forall>tmpl table_tmpl src tables.
          render_text co' tmpl table_tmpl src tables text_params
            = render_text co tmpl table_tmpl src tables text_params)
       \<and> (\<forall>tmpl table_tmpl src images tables.
          render_html co' tmpl table_tmpl src images tables html_params
            = render_html co tmpl table_tmpl src images tables html_params)
       \<and> resolve_attachments co' = resolve_attachments co
       \<longrightarrow> get_message co' pf self a = get_message co pf self a)"
proof (intro conjI impI)
  show "{''node'', ''user'', ''now'', ''sender'', ''error''} \<subseteq> dom (map_of html_params)"
    by (simp add: html_params_def map_of_get_html_params map_of_get_params)
  show "{''node'', ''user'', ''now'', ''sender'', ''error''} \<subseteq> dom (map_of text_params)"
    by (simp add: text_params_def map_of_get_text_params map_of_get_params)
next
  assume "case arg_body_params a of None \<Rightarrow> True | Some e \<Rightarrow> k \<notin> fst ` set e"
  then have none:
    "(case arg_body_params a of None \<Rightarrow> Map.empty | Some e \<Rightarrow> map_of (rev e)) k = None"
    by (cases "arg_body_params a") (simp_all add: map_of_eq_None_iff)
  show "map_of html_params k =
          [''node'' \<mapsto> PyStr (node pf), ''user'' \<mapsto> PyStr (getuser pf),
           ''now'' \<mapsto> PyDateTime (now pf), ''sender'' \<mapsto> EmailAddress snd_addr,
           ''error'' \<mapsto> Error ''html-inline''] k"
    using none
    by (simp add: html_params_def map_of_get_html_params map_of_get_params map_add_def)
  show "map_of text_params k =
          [''node'' \<mapsto> PyStr (node pf), ''user'' \<mapsto> PyStr (getuser pf),
           ''now'' \<mapsto> PyDateTime (now pf), ''sender'' \<mapsto> EmailAddress snd_addr,
           ''error'' \<mapsto> Error ''text''] k"
    using none
    by (simp add: text_params_def map_of_get_text_params map_of_get_params map_add_def)
next
  assume e: "arg_body_params a = Some e \<and> distinct (map fst e) \<and> (k', v) \<in> set e"
  then have "map_of (rev e) k' = Some v"
    by (simp add: map_of_rev_distinct)
  with e show "map_of html_params k' = Some v" "map_of text_params k' = Some v"
    by (simp_all add: html_params_def text_params_def map_of_get_html_params
        map_of_get_text_params map_add_Some_iff)
next
  assume run: "get_message co pf self a = Inr msg"
  {
    assume "r_text (resolve_args self a) \<noteq> None \<or> r_text_template (resolve_args self a) \<noteq> None"
    with get_message_text_part [OF run]
    show "\<exists>tmpl table_tmpl t.
                render_text co tmpl table_tmpl (r_text (resolve_args self a))
                  (arg_body_tables a) text_params = Inr t
                \<and> text_part msg = Some t"
      unfolding text_params_def snd_addr_def by auto
  }
  {
    assume "r_html (resolve_args self a) \<noteq> None \<or> r_html_template (resolve_args self a) \<noteq> None"
    with get_message_html_part [OF run]
    show "\<exists>tmpl table_tmpl h.
                render_html co tmpl table_tmpl (r_html (resolve_args self a))
                  (arg_body_images a) (arg_body_tables a) html_params
                    = Inr (h, inline_resources msg)
                \<and> html_part msg = Some h"
      unfolding html_params_def snd_addr_def by auto
  }
next
  assume same: "(\<forall>tmpl table_tmpl src tables.
          render_text co' tmpl table_tmpl src tables text_params
            = render_text co tmpl table_tmpl src tables text_params)
       \<and> (\<forall>tmpl table_tmpl src images tables.
          render_html co' tmpl table_tmpl src images tables html_params
            = render_html co tmpl table_tmpl src images tables html_params)
       \<and> resolve_attachments co' = resolve_attachments co"
  then have t: "attach_text co' pf self a (resolve_args self a) m
                 = attach_text co pf self a (resolve_args self a) m" for m
    unfolding text_params_def snd_addr_def by (intro attach_text_render) simp
  from same have h: "attach_html co' pf self a (resolve_args self a) m
                 = attach_html co pf self a (resolve_args self a) m" for m
    unfolding html_params_def snd_addr_def by (intro attach_html_render) simp
  from same have "attach_files co' self a m = attach_files co self a m" for m
    by (intro attach_files_resolve) simp
  then have f: "attach_files co' self a = attach_files co self a"
    by (rule ext)
  show "get_message co' pf self a = get_message co pf self a"
    by (simp add: get_message_def Let_def t h f split: option.splits)
qed

text \<open>
  A call with a text and an HTML body whose \<open>body_params\<close> has the key \<open>name\<close> only,
  with collaborators that render a body to its error marker: the text part shows the
  text form, the HTML part the HTML-inline form, and \<open>name\<close> holds the caller's value.
\<close>

theorem implicit_params_witness:
  "get_message marker_collaborators example_platform example_sender
     (no_args\<lparr>arg_subject := Some ''Hi'', arg_text := Some ''t'', arg_html := Some ''h'',
              arg_body_params := Some [(''name'', PyStr ''Bob'')]\<rparr>)
    = Inr \<lparr>headers = [(''from'', HeaderStr (Some ''bot@example.com'')),
                      (''subject'', HeaderStr (Some ''Hi''))],
           text_part = Some ''text'', html_part = Some ''html-inline'', inline_resources = [],
           attachments = []\<rparr>
   \<and> map_of (get_html_params example_platform example_sender
        (Some [(''name'', PyStr ''Bob'')]) (Some ''bot@example.com'')) ''error''
       = Some (Error ''html-inline'')
   \<and> map_of (get_text_params example_platform example_sender
        (Some [(''name'', PyStr ''Bob'')]) (Some ''bot@example.com'')) ''error''
       = Some (Error ''text'')
   \<and> map_of (get_html_params example_platform example_sender
        (Some [(''name'', PyStr ''Bob'')]) (Some ''bot@example.com'')) ''name''
       = Some (PyStr ''Bob'')
   \<and> map_of (get_text_params example_platform example_sender
        (Some [(''name'', PyStr ''Bob'')]) (Some ''bot@example.com'')) ''node''
       = Some (PyStr ''host1'')"
proof -
  let ?a = "no_args\<lparr>arg_subject := Some ''Hi'', arg_text := Some ''t'', arg_html := Some ''h'',
              arg_body_params := Some [(''name'', PyStr ''Bob'')]\<rparr>"
  have run: "get_message marker_collaborators example_platform example_sender ?a
    = Inr \<lparr>headers = [(''from'', HeaderStr (Some ''bot@example.com'')),
                      (''subject'', HeaderStr (Some ''Hi''))],
           text_part = Some ''text'', html_part = Some ''html-inline'', inline_resources = [],
           attachments = []\<rparr>"
    by (simp add: example_defs compose_defs marker_collaborators_def show_error_def
        get_html_params_def get_text_params_def get_params_def dict_update_def truthy_dict_def)
  have s: "r_sender (resolve_args example_sender ?a) = Some ''bot@example.com''"
    by (simp add: resolve_args_def get_sender_def example_sender_def init_def no_args_def)
  have p: "arg_body_params ?a = Some [(''name'', PyStr ''Bob'')]"
    by simp
  note marker = implicit_params [where self = example_sender and a = ?a
      and pf = example_platform and k = "''error''" and e = "[(''name'', PyStr ''Bob'')]"
      and k' = "''name''" and v = "PyStr ''Bob''", unfolded s p]
  note host = implicit_params [where self = example_sender and a = ?a
      and pf = example_platform and k = "''node''", unfolded s p]
  from marker have 1: "map_of (get_html_params example_platform example_sender
        (Some [(''name'', PyStr ''Bob'')]) (Some ''bot@example.com'')) ''error''
       = Some (Error ''html-inline'')"
    and 2: "map_of (get_text_params example_platform example_sender
        (Some [(''name'', PyStr ''Bob'')]) (Some ''bot@example.com'')) ''error''
       = Some (Error ''text'')"
    and 3: "map_of (get_html_params example_platform example_sender
        (Some [(''name'', PyStr ''Bob'')]) (Some ''bot@example.com'')) ''name''
       = Some (PyStr ''Bob'')"
    by simp_all
  from host have 4: "map_of (get_text_params example_platform example_sender
        (Some [(''name'', PyStr ''Bob'')]) (Some ''bot@example.com'')) ''node''
       = Some (PyStr ''host1'')"
    by (simp add: example_platform_def)
  from run 1 2 3 4 show ?thesis by blast
qed

end
